theory Spec2Isabelle
  imports Complex_Main
begin

section \<open>Data model of the document store\<close>

text \<open>
  The development embeds \<^verbatim>\<open>src/main/database_ops.py\<close> (class \<^verbatim>\<open>DBOps\<close>) and the two
  helpers \<^verbatim>\<open>calculate_bmi\<close> and \<^verbatim>\<open>calculate_mosteller_bsa\<close> of
  \<^verbatim>\<open>src/main/utilities/utils.py\<close>.

  Conventions of the embedding:
  \<^item> an ObjectId (and its string form) is a natural number;
  \<^item> a number is a value of type \<open>pynum\<close>: a real number (an \<^verbatim>\<open>int\<close> or a finite
    \<^verbatim>\<open>float\<close>, which Python compares exactly), one of the two infinities, or
    \<^verbatim>\<open>NaN\<close>, which \<^verbatim>\<open>json.load\<close> and the \<^verbatim>\<open>isinstance\<close> checks accept;
  \<^item> the two arithmetic expressions of \<^verbatim>\<open>utils.py\<close> are float computations, whose
    values depend on the rounding of every operation: they are parameters of the model
    (\<open>float_ops\<close>), and every statement holds for all of them;
  \<^item> a collection is the list of its documents in natural order, \<^verbatim>\<open>find\<close> is a filter,
    \<^verbatim>\<open>find_one\<close> and \<^verbatim>\<open>update_one\<close> act on the first match, \<^verbatim>\<open>update_many\<close> on all;
  \<^item> a document has every field of its record, and a field that is \<^verbatim>\<open>null\<close> or
    \<^verbatim>\<open>None\<close> is \<open>None\<close>; the stored \<^verbatim>\<open>internal_info\<close> is the sub-document
    \<^verbatim>\<open>{"internal_id": ..., "series": ...}\<close> or missing;
  \<^item> an exception is a value of type \<open>error\<close>; a method that writes to the database
    returns its outcome together with the database it leaves behind, so that writes made
    before a raise stay visible.
\<close>

text \<open>
  The \<^verbatim>\<open>series\<close> argument and field: \<^verbatim>\<open>None\<close>, a string, or a list of strings.
  \<^verbatim>\<open>SystemExit\<close> carries its arguments: the text, and before it the patient entry where
  the source passes one (line 589).
\<close>

datatype series = NoSeries | SeriesStr string | SeriesList "string list"

datatype error =
    SystemExit "(int \<times> series) option" string
  | SystemError string
  | ValueError string
  | TypeError
  | IndexError
  | KeyError
  | ZeroDivisionError
  | OverflowError
  | FileNotFoundError

text \<open>
  Numbers, with the order of \<^verbatim>\<open><\<close> and \<^verbatim>\<open>>\<close>: every comparison with \<^verbatim>\<open>NaN\<close> is
  false.
\<close>

datatype pynum = Finite real | Infinity | MinusInfinity | NaN

fun num_lt :: "pynum \<Rightarrow> pynum \<Rightarrow> bool" where
  "num_lt (Finite a) (Finite b) = (a < b)"
| "num_lt (Finite a) Infinity = True"
| "num_lt MinusInfinity (Finite b) = True"
| "num_lt MinusInfinity Infinity = True"
| "num_lt _ _ = False"

record internal_info =
  internal_id :: int
  series :: series

record patient_doc =
  oid :: nat
  internal_info :: "internal_info option"
  age :: "pynum option"
  gender :: "string option"
  height :: "pynum option"
  weight :: "pynum option"
  bmi :: "pynum option"
  bsa :: "pynum option"
  origin_location :: "string option"
  models :: "nat option"
  datetime_creation :: "nat option"

record model_doc =
  model_oid :: nat
  model_payload :: string
  model_datetime_creation :: "nat option"

text \<open>The sub-document \<^verbatim>\<open>{"min": ..., "max": ...}\<close> of a cohort, one per dimension.\<close>

record bounds =
  min_b :: "pynum option"
  max_b :: "pynum option"

record cohort_doc =
  cohort_oid :: nat
  cohort_name :: string
  patient_ids :: "nat list"
  number_patients :: int
  height_bounds :: bounds
  weight_bounds :: bounds

record database =
  patient_coll :: "patient_doc list"
  models_coll :: "model_doc list"
  cohort_coll :: "cohort_doc list"
  next_oid :: nat

section \<open>Patient identity resolution\<close>

text \<open>Python truthiness of a series value (\<^verbatim>\<open>if series:\<close>).\<close>

fun series_truthy :: "series \<Rightarrow> bool" where
  "series_truthy NoSeries = False"
| "series_truthy (SeriesStr s) = (s \<noteq> [])"
| "series_truthy (SeriesList l) = (l \<noteq> [])"

text \<open>
  The filter \<^verbatim>\<open>{"internal_info.internal_id": internal_id}\<close>: the document has an
  \<^verbatim>\<open>internal_info\<close> whose \<^verbatim>\<open>internal_id\<close> is the given one.
\<close>

definition has_internal_id :: "int \<Rightarrow> patient_doc \<Rightarrow> bool" where
  "has_internal_id iid p =
     (case internal_info p of None \<Rightarrow> False | Some ii \<Rightarrow> internal_id ii = iid)"

text \<open>
  The two \<^verbatim>\<open>find\<close> calls of \<^verbatim>\<open>to_query\<close>. With a truthy series the filter is the
  whole sub-document \<^verbatim>\<open>{"internal_id": ..., "series": ...}\<close>, which the store compares
  for equality (a list of series in the order given).
\<close>

definition find_patients :: "database \<Rightarrow> int \<Rightarrow> series \<Rightarrow> patient_doc list" where
  "find_patients db iid s =
     (if series_truthy s
      then filter (\<lambda>p. internal_info p = Some \<lparr>internal_id = iid, series = s\<rparr>)
             (patient_coll db)
      else filter (has_internal_id iid) (patient_coll db))"

definition more_than_one :: error where
  "more_than_one = SystemExit None ''More than one patient entry found.''"

definition to_query :: "database \<Rightarrow> int \<Rightarrow> series \<Rightarrow> error + patient_doc list" where
  "to_query db iid s =
     (let query = find_patients db iid s
      in if length query > 1 then Inl more_than_one else Inr query)"

text \<open>
  \<^verbatim>\<open>get_patient_collection\<close>, with the list of the queries it sends to the store next to
  its result. A list of fewer than two series raises \<^verbatim>\<open>IndexError\<close> at
  \<^verbatim>\<open>[series[1], series[0]]\<close>.
\<close>

definition get_patient_collection_run ::
  "database \<Rightarrow> int \<Rightarrow> series \<Rightarrow> series list \<times> (error + patient_doc list)" where
  "get_patient_collection_run db iid s =
     (case s of
        SeriesList l \<Rightarrow>
          (case to_query db iid s of
             Inl e \<Rightarrow> ([s], Inl e)
           | Inr query \<Rightarrow>
               if query = []
               then (case l of
                       a # b # _ \<Rightarrow>
                         ([s, SeriesList [b, a]], to_query db iid (SeriesList [b, a]))
                     | _ \<Rightarrow> ([s], Inl IndexError))
               else ([s], Inr query))
      | _ \<Rightarrow> ([s], to_query db iid s))"

definition get_patient_collection ::
  "database \<Rightarrow> int \<Rightarrow> series \<Rightarrow> error + patient_doc list" where
  "get_patient_collection db iid s = snd (get_patient_collection_run db iid s)"

section \<open>Cohort dimension aggregation\<close>

text \<open>\<^verbatim>\<open>find_one({"_id": ...})\<close> on the two collections, and \<^verbatim>\<open>update_one\<close> on a cohort.\<close>

fun find_patient :: "patient_doc list \<Rightarrow> nat \<Rightarrow> patient_doc option" where
  "find_patient [] i = None"
| "find_patient (p # ps) i = (if oid p = i then Some p else find_patient ps i)"

fun find_cohort :: "cohort_doc list \<Rightarrow> nat \<Rightarrow> cohort_doc option" where
  "find_cohort [] i = None"
| "find_cohort (c # cs) i = (if cohort_oid c = i then Some c else find_cohort cs i)"

fun update_cohort ::
  "(cohort_doc \<Rightarrow> cohort_doc) \<Rightarrow> cohort_doc list \<Rightarrow> nat \<Rightarrow> cohort_doc list" where
  "update_cohort f [] i = []"
| "update_cohort f (c # cs) i =
     (if cohort_oid c = i then f c # cs else c # update_cohort f cs i)"

text \<open>\<^verbatim>\<open>$addToSet\<close> with \<^verbatim>\<open>$each\<close>: every value not yet in the array is appended.\<close>

fun add_to_set :: "nat list \<Rightarrow> nat list \<Rightarrow> nat list" where
  "add_to_set arr [] = arr"
| "add_to_set arr (x # xs) = add_to_set (if x \<in> set arr then arr else arr @ [x]) xs"

text \<open>
  The body of \<^verbatim>\<open>for i in ["height", "weight"]\<close> for one dimension: the
  \<^verbatim>\<open>if\<close>/\<^verbatim>\<open>elif\<close>/\<^verbatim>\<open>elif\<close> chain on the cohort's bounds and the patient's value.
\<close>

definition below :: "pynum option \<Rightarrow> pynum option \<Rightarrow> bool" where
  "below v w = (case (v, w) of (Some x, Some y) \<Rightarrow> num_lt x y | _ \<Rightarrow> False)"

definition fold_dimension :: "bounds \<Rightarrow> pynum option \<Rightarrow> bounds" where
  "fold_dimension b v =
     (if below v (min_b b) then b\<lparr>min_b := v\<rparr>
      else if below (max_b b) v then b\<lparr>max_b := v\<rparr>
      else if min_b b = None \<and> max_b b = None \<and> v \<noteq> None then b\<lparr>min_b := v, max_b := v\<rparr>
      else b)"

definition fold_patient :: "cohort_doc \<Rightarrow> patient_doc \<Rightarrow> cohort_doc" where
  "fold_patient c p =
     c\<lparr>height_bounds := fold_dimension (height_bounds c) (height p),
       weight_bounds := fold_dimension (weight_bounds c) (weight p)\<rparr>"

text \<open>
  The loop \<^verbatim>\<open>for id_ in patient_ids\<close> on the local copy of the cohort document. A patient
  id without a document makes \<^verbatim>\<open>patient_doc\<close> \<^verbatim>\<open>None\<close>, and each branch of the chain
  reads \<^verbatim>\<open>patient_doc[i]\<close>: \<^verbatim>\<open>TypeError\<close>.
\<close>

fun fold_patients :: "patient_doc list \<Rightarrow> nat list \<Rightarrow> cohort_doc \<Rightarrow> error + cohort_doc" where
  "fold_patients ps [] c = Inr c"
| "fold_patients ps (i # ids) c =
     (case find_patient ps i of
        None \<Rightarrow> Inl TypeError
      | Some p \<Rightarrow> fold_patients ps ids (fold_patient c p))"

text \<open>The final \<^verbatim>\<open>$set\<close> of the four bound fields.\<close>

definition set_bounds :: "cohort_doc \<Rightarrow> cohort_doc \<Rightarrow> cohort_doc" where
  "set_bounds local c =
     c\<lparr>height_bounds := height_bounds local, weight_bounds := weight_bounds local\<rparr>"

definition update_max_min_patient_dimensions_in_cohort ::
  "database \<Rightarrow> nat \<Rightarrow> nat list \<Rightarrow> error option \<times> database" where
  "update_max_min_patient_dimensions_in_cohort db cohort_id ids =
     (case find_cohort (cohort_coll db) cohort_id of
        None \<Rightarrow> (Some TypeError, db)
      | Some cohort \<Rightarrow>
          (case fold_patients (patient_coll db) ids cohort of
             Inl e \<Rightarrow> (Some e, db)
           | Inr local \<Rightarrow>
               (None, db\<lparr>cohort_coll :=
                          update_cohort (set_bounds local) (cohort_coll db) cohort_id\<rparr>)))"

definition add_patients_to_cohort ::
  "database \<Rightarrow> nat \<Rightarrow> nat list \<Rightarrow> (error + nat list) \<times> database" where
  "add_patients_to_cohort db cohort_id ids =
     (let db1 = db\<lparr>cohort_coll :=
                    update_cohort (\<lambda>c. c\<lparr>patient_ids := add_to_set (patient_ids c) ids\<rparr>)
                      (cohort_coll db) cohort_id\<rparr>
      in case find_cohort (cohort_coll db1) cohort_id of
           None \<Rightarrow> (Inl TypeError, db1)
         | Some c1 \<Rightarrow>
             (let db2 = db1\<lparr>cohort_coll :=
                             update_cohort
                               (\<lambda>c. c\<lparr>number_patients := int (length (patient_ids c1))\<rparr>)
                               (cohort_coll db1) cohort_id\<rparr>
              in case update_max_min_patient_dimensions_in_cohort db2 cohort_id ids of
                   (Some e, db3) \<Rightarrow> (Inl e, db3)
                 | (None, db3) \<Rightarrow>
                     (case find_cohort (cohort_coll db3) cohort_id of
                        None \<Rightarrow> (Inl TypeError, db3)
                      | Some c3 \<Rightarrow> (Inr (patient_ids c3), db3))))"

definition set_max_min_patient_dimensions_in_cohort ::
  "database \<Rightarrow> nat \<Rightarrow> (error + cohort_doc) \<times> database" where
  "set_max_min_patient_dimensions_in_cohort db cohort_id =
     (case find_cohort (cohort_coll db) cohort_id of
        None \<Rightarrow> (Inl TypeError, db)
      | Some cohort \<Rightarrow>
          (case fold_patients (patient_coll db) (patient_ids cohort) cohort of
             Inl e \<Rightarrow> (Inl e, db)
           | Inr local \<Rightarrow>
               (let db1 = db\<lparr>cohort_coll :=
                              update_cohort (set_bounds local) (cohort_coll db) cohort_id\<rparr>
                in case find_cohort (cohort_coll db1) cohort_id of
                     None \<Rightarrow> (Inl TypeError, db1)
                   | Some c \<Rightarrow> (Inr c, db1))))"

text \<open>A script that calls \<^verbatim>\<open>add_patients_to_cohort\<close> once per batch, stopping at a raise.\<close>

fun add_batches :: "database \<Rightarrow> nat \<Rightarrow> nat list list \<Rightarrow> error option \<times> database" where
  "add_batches db cohort_id [] = (None, db)"
| "add_batches db cohort_id (ids # rest) =
     (case add_patients_to_cohort db cohort_id ids of
        (Inl e, db1) \<Rightarrow> (Some e, db1)
      | (Inr _, db1) \<Rightarrow> add_batches db1 cohort_id rest)"

section \<open>Demographic update and derived metrics\<close>

text \<open>
  The values a caller passes as keyword arguments: \<^verbatim>\<open>None\<close> (argument absent), a
  \<^verbatim>\<open>bool\<close>, an \<^verbatim>\<open>int\<close>, a \<^verbatim>\<open>float\<close> or a \<^verbatim>\<open>str\<close>.
\<close>

datatype pyval = PNone | PBool bool | PInt int | PFloat pynum | PStr string

text \<open>
  \<^verbatim>\<open>isinstance(x, (int, float))\<close> holds for exactly the values with a number
  (\<^verbatim>\<open>bool\<close> is a subclass of \<^verbatim>\<open>int\<close>, and \<^verbatim>\<open>NaN\<close> is a \<^verbatim>\<open>float\<close>).
\<close>

fun num_of :: "pyval \<Rightarrow> pynum option" where
  "num_of PNone = None"
| "num_of (PBool b) = Some (Finite (if b then 1 else 0))"
| "num_of (PInt n) = Some (Finite (of_int n))"
| "num_of (PFloat f) = Some f"
| "num_of (PStr s) = None"

definition is_number :: "pyval \<Rightarrow> bool" where
  "is_number x = (num_of x \<noteq> None)"

fun str_of :: "pyval \<Rightarrow> string option" where
  "str_of (PStr s) = Some s"
| "str_of _ = None"

text \<open>Truthiness: of the numbers only zero is false, so \<^verbatim>\<open>NaN\<close> is true.\<close>

fun truthy :: "pyval \<Rightarrow> bool" where
  "truthy PNone = False"
| "truthy (PBool b) = b"
| "truthy (PInt n) = (n \<noteq> 0)"
| "truthy (PFloat f) = (f \<noteq> Finite 0)"
| "truthy (PStr s) = (s \<noteq> [])"

text \<open>
  \<^verbatim>\<open>x in range(0, 121)\<close>: membership in a range compares \<^verbatim>\<open>x\<close> for equality with the
  integers \<open>0, ..., 120\<close>, so a float is a member only when it is one of them.
\<close>

fun in_range_0_121 :: "pyval \<Rightarrow> bool" where
  "in_range_0_121 PNone = False"
| "in_range_0_121 (PBool b) = True"
| "in_range_0_121 (PInt n) = (0 \<le> n \<and> n < 121)"
| "in_range_0_121 (PFloat (Finite r)) = (r = of_int \<lfloor>r\<rfloor> \<and> 0 \<le> r \<and> r < 121)"
| "in_range_0_121 (PFloat f) = False"
| "in_range_0_121 (PStr s) = False"

text \<open>
  The float computations of \<^verbatim>\<open>utils.py\<close>, as parameters: \<open>bmi_value w h\<close> stands for
  \<^verbatim>\<open>round(weight / math.pow(height / 100, 2), 2)\<close> and \<open>bsa_value w h\<close> for
  \<^verbatim>\<open>round(math.sqrt(weight * height / 3600), 2)\<close>. Either raises (a zero divisor, the
  square root of a negative number, an overflow) or gives a float, which may be
  \<^verbatim>\<open>NaN\<close>.
\<close>

record float_ops =
  bmi_value :: "pynum \<Rightarrow> pynum \<Rightarrow> error + pynum"
  bsa_value :: "pynum \<Rightarrow> pynum \<Rightarrow> error + pynum"

text \<open>
  \<^verbatim>\<open>calculate_bmi\<close> and \<^verbatim>\<open>calculate_mosteller_bsa\<close>: \<^verbatim>\<open>None\<close> for an argument that is
  \<^verbatim>\<open>None\<close>, the computation, and \<^verbatim>\<open>None\<close> for a result that is \<^verbatim>\<open>NaN\<close>.
\<close>

definition calculate_bmi ::
  "float_ops \<Rightarrow> pynum option \<Rightarrow> pynum option \<Rightarrow> error + pynum option" where
  "calculate_bmi fl w h =
     (case (w, h) of
        (Some wv, Some hv) \<Rightarrow>
          (case bmi_value fl wv hv of
             Inl e \<Rightarrow> Inl e
           | Inr bmi_v \<Rightarrow> if bmi_v = NaN then Inr None else Inr (Some bmi_v))
      | _ \<Rightarrow> Inr None)"

definition calculate_mosteller_bsa ::
  "float_ops \<Rightarrow> pynum option \<Rightarrow> pynum option \<Rightarrow> error + pynum option" where
  "calculate_mosteller_bsa fl w h =
     (case (w, h) of
        (Some wv, Some hv) \<Rightarrow>
          (case bsa_value fl wv hv of
             Inl e \<Rightarrow> Inl e
           | Inr bsa_v \<Rightarrow> if bsa_v = NaN then Inr None else Inr (Some bsa_v))
      | _ \<Rightarrow> Inr None)"

text \<open>
  \<^verbatim>\<open>update_many({"internal_info.internal_id": internal_id}, {"$set": ...})\<close> and
  \<^verbatim>\<open>find_one\<close> with the same filter.
\<close>

definition update_many ::
  "int \<Rightarrow> (patient_doc \<Rightarrow> patient_doc) \<Rightarrow> database \<Rightarrow> database" where
  "update_many iid f db =
     db\<lparr>patient_coll := map (\<lambda>p. if has_internal_id iid p then f p else p) (patient_coll db)\<rparr>"

definition find_one_by_internal_id :: "database \<Rightarrow> int \<Rightarrow> patient_doc option" where
  "find_one_by_internal_id db iid = List.find (has_internal_id iid) (patient_coll db)"

text \<open>
  The block \<^verbatim>\<open>if height:\<close> of \<^verbatim>\<open>update_human_demographics\<close>: the height is written,
  the stored weight of the first matching document is read, and with a weight present
  both derived values are computed before either is written.
\<close>

definition set_height ::
  "float_ops \<Rightarrow> int \<Rightarrow> pyval \<Rightarrow> database \<Rightarrow> error option \<times> database" where
  "set_height fl iid hv db =
     (if truthy hv
      then (let db1 = update_many iid (\<lambda>p. p\<lparr>height := num_of hv\<rparr>) db
            in case find_one_by_internal_id db1 iid of
                 None \<Rightarrow> (Some TypeError, db1)
               | Some first \<Rightarrow>
                   (case weight first of
                      None \<Rightarrow> (None, db1)
                    | Some check_weight \<Rightarrow>
                        (case calculate_bmi fl (Some check_weight) (num_of hv) of
                           Inl e \<Rightarrow> (Some e, db1)
                         | Inr b \<Rightarrow>
                             (case calculate_mosteller_bsa fl (Some check_weight) (num_of hv) of
                                Inl e \<Rightarrow> (Some e, db1)
                              | Inr s \<Rightarrow>
                                  (None,
                                   update_many iid (\<lambda>p. p\<lparr>bsa := s\<rparr>)
                                     (update_many iid (\<lambda>p. p\<lparr>bmi := b\<rparr>) db1))))))
      else (None, db))"

text \<open>The block \<^verbatim>\<open>if weight:\<close>, with the roles of the two fields exchanged.\<close>

definition set_weight ::
  "float_ops \<Rightarrow> int \<Rightarrow> pyval \<Rightarrow> database \<Rightarrow> error option \<times> database" where
  "set_weight fl iid wv db =
     (if truthy wv
      then (let db1 = update_many iid (\<lambda>p. p\<lparr>weight := num_of wv\<rparr>) db
            in case find_one_by_internal_id db1 iid of
                 None \<Rightarrow> (Some TypeError, db1)
               | Some first \<Rightarrow>
                   (case height first of
                      None \<Rightarrow> (None, db1)
                    | Some check_height \<Rightarrow>
                        (case calculate_bmi fl (num_of wv) (Some check_height) of
                           Inl e \<Rightarrow> (Some e, db1)
                         | Inr b \<Rightarrow>
                             (case calculate_mosteller_bsa fl (num_of wv) (Some check_height) of
                                Inl e \<Rightarrow> (Some e, db1)
                              | Inr s \<Rightarrow>
                                  (None,
                                   update_many iid (\<lambda>p. p\<lparr>bsa := s\<rparr>)
                                     (update_many iid (\<lambda>p. p\<lparr>bmi := b\<rparr>) db1))))))
      else (None, db))"

definition valid_locations :: "string list" where
  "valid_locations =
     [''europe'', ''asia_pacific'', ''north_south_america'', ''middle_east_africa'']"

text \<open>The last block: the check of \<^verbatim>\<open>loc\<close> and its write.\<close>

definition set_origin_location :: "int \<Rightarrow> pyval \<Rightarrow> database \<Rightarrow> error option \<times> database" where
  "set_origin_location iid loc db =
     (if (case str_of loc of None \<Rightarrow> True | Some s \<Rightarrow> s \<notin> set valid_locations) \<and> loc \<noteq> PNone
      then (Some (ValueError ''Origin location not in the accepted values/format.''), db)
      else if truthy loc
      then (None, update_many iid (\<lambda>p. p\<lparr>origin_location := str_of loc\<rparr>) db)
      else (None, db))"

text \<open>
  \<^verbatim>\<open>update_human_demographics(internal_id, age=, gender=, height=, weight=, loc=)\<close>,
  the checks and writes in the order of the source.
\<close>

definition update_human_demographics ::
  "float_ops \<Rightarrow> database \<Rightarrow> int \<Rightarrow> pyval \<Rightarrow> pyval \<Rightarrow> pyval \<Rightarrow> pyval \<Rightarrow> pyval
     \<Rightarrow> error option \<times> database" where
  "update_human_demographics fl db iid age_v gender_v height_v weight_v loc_v =
     (if \<not> is_number age_v \<and> age_v \<noteq> PNone
      then (Some (ValueError ''Age must be an integer or float.''), db)
      else if \<not> in_range_0_121 age_v \<and> age_v \<noteq> PNone
      then (Some (ValueError ''Age not inside the valid range.''), db)
      else
        (let db1 = (if truthy age_v then update_many iid (\<lambda>p. p\<lparr>age := num_of age_v\<rparr>) db
                    else db)
         in if gender_v \<noteq> PStr ''male'' \<and> gender_v \<noteq> PStr ''female'' \<and> gender_v \<noteq> PNone
            then (Some (ValueError ''Gender not male/female.''), db1)
            else
              (let db2 = (if truthy gender_v
                          then update_many iid (\<lambda>p. p\<lparr>gender := str_of gender_v\<rparr>) db1
                          else db1)
               in if \<not> is_number height_v \<and> height_v \<noteq> PNone
                  then (Some (ValueError ''Height/weight must be an integer or float.''), db2)
                  else if \<not> is_number weight_v \<and> weight_v \<noteq> PNone
                  then (Some (ValueError ''Height/weight must be an integer or float.''), db2)
                  else
                    (case set_height fl iid height_v db2 of
                       (Some e, db3) \<Rightarrow> (Some e, db3)
                     | (None, db3) \<Rightarrow>
                         (case set_weight fl iid weight_v db3 of
                            (Some e, db4) \<Rightarrow> (Some e, db4)
                          | (None, db4) \<Rightarrow> set_origin_location iid loc_v db4)))))"

section \<open>Batch ingestion\<close>

text \<open>
  What \<^verbatim>\<open>upload_patients\<close> reads below \<^verbatim>\<open>jsondir\<close>, by human id (the directory
  \<^verbatim>\<open>f"{int(human):05}"\<close>) and, in the layout with series directories, by series name:
  \<^item> \<open>listing\<close>: \<^verbatim>\<open>os.listdir\<close> of the human's directory, \<open>None\<close> when there is no such
    directory, else whether one of its entries is a directory;
  \<^item> the parsed \<^verbatim>\<open>patient_collection.json\<close> and \<^verbatim>\<open>model_collection.json\<close> of either
    layout, \<open>None\<close> when the file does not exist. A file that exists holds a document
    without an \<^verbatim>\<open>_id\<close> of its own.
\<close>

record json_dir =
  listing :: "int \<Rightarrow> bool option"
  flat_patient :: "int \<Rightarrow> patient_doc option"
  flat_model :: "int \<Rightarrow> model_doc option"
  series_patient :: "int \<Rightarrow> string \<Rightarrow> patient_doc option"
  series_model :: "int \<Rightarrow> string \<Rightarrow> model_doc option"

text \<open>
  Lines 562 to 583: the patients list built from \<^verbatim>\<open>internal_id_list\<close>. The text of the
  \<^verbatim>\<open>SystemError\<close> is the source's template, without the path it formats in.
\<close>

fun build_patients_list :: "json_dir \<Rightarrow> int list \<Rightarrow> error + (int \<times> series) list" where
  "build_patients_list fs [] = Inr []"
| "build_patients_list fs (i # rest) =
     (case listing fs i of
        None \<Rightarrow> Inl FileNotFoundError
      | Some True \<Rightarrow> Inl (SystemError ''Directories where found in {}. Provide patients_list.'')
      | Some False \<Rightarrow>
          (case flat_patient fs i of
             None \<Rightarrow> Inl FileNotFoundError
           | Some patient_dict \<Rightarrow>
               (case internal_info patient_dict of
                  None \<Rightarrow> Inl KeyError
                | Some ii \<Rightarrow>
                    (case build_patients_list fs rest of
                       Inl e \<Rightarrow> Inl e
                     | Inr ps \<Rightarrow> Inr ((i, series ii) # ps)))))"

text \<open>
  The two files of one entry. Without \<^verbatim>\<open>internal_id_list\<close> the series is a path
  component: \<^verbatim>\<open>os.path.join\<close> raises \<^verbatim>\<open>TypeError\<close> on anything but a string.
\<close>

definition patient_file :: "json_dir \<Rightarrow> bool \<Rightarrow> int \<Rightarrow> series \<Rightarrow> error + patient_doc" where
  "patient_file fs by_id human s =
     (if by_id
      then (case flat_patient fs human of None \<Rightarrow> Inl FileNotFoundError | Some p \<Rightarrow> Inr p)
      else (case s of
              SeriesStr name \<Rightarrow>
                (case series_patient fs human name of
                   None \<Rightarrow> Inl FileNotFoundError
                 | Some p \<Rightarrow> Inr p)
            | _ \<Rightarrow> Inl TypeError))"

definition model_file :: "json_dir \<Rightarrow> bool \<Rightarrow> int \<Rightarrow> series \<Rightarrow> error + model_doc" where
  "model_file fs by_id human s =
     (if by_id
      then (case flat_model fs human of None \<Rightarrow> Inl FileNotFoundError | Some m \<Rightarrow> Inr m)
      else (case s of
              SeriesStr name \<Rightarrow>
                (case series_model fs human name of
                   None \<Rightarrow> Inl FileNotFoundError
                 | Some m \<Rightarrow> Inr m)
            | _ \<Rightarrow> Inl TypeError))"

text \<open>
  Lines 585 to 624, the first loop: each entry is looked up, then its two files must exist.
  A record that is found raises \<^verbatim>\<open>SystemExit(patient, text)\<close> here and
  \<^verbatim>\<open>SystemExit(text)\<close> in the second loop.
\<close>

definition present_at_start :: "int \<times> series \<Rightarrow> error" where
  "present_at_start patient =
     SystemExit (Some patient) ''Patient already present in the database.''"

definition already_present :: error where
  "already_present = SystemExit None ''Patient already present in the database.''"

fun validate_patients ::
  "json_dir \<Rightarrow> database \<Rightarrow> bool \<Rightarrow> (int \<times> series) list \<Rightarrow> error option" where
  "validate_patients fs db by_id [] = None"
| "validate_patients fs db by_id ((human, s) # rest) =
     (case get_patient_collection db human s of
        Inl e \<Rightarrow> Some e
      | Inr (_ # _) \<Rightarrow> Some (present_at_start (human, s))
      | Inr [] \<Rightarrow>
          (case patient_file fs by_id human s of
             Inl e \<Rightarrow> Some e
           | Inr _ \<Rightarrow>
               (case model_file fs by_id human s of
                  Inl e \<Rightarrow> Some e
                | Inr _ \<Rightarrow> validate_patients fs db by_id rest)))"

text \<open>\<^verbatim>\<open>insert_one\<close>: the document gets a fresh \<^verbatim>\<open>_id\<close> and goes to the end.\<close>

definition insert_model :: "model_doc \<Rightarrow> database \<Rightarrow> nat \<times> database" where
  "insert_model m db =
     (next_oid db,
      db\<lparr>models_coll := models_coll db @ [m\<lparr>model_oid := next_oid db\<rparr>],
         next_oid := Suc (next_oid db)\<rparr>)"

definition insert_patient :: "patient_doc \<Rightarrow> database \<Rightarrow> nat \<times> database" where
  "insert_patient p db =
     (next_oid db,
      db\<lparr>patient_coll := patient_coll db @ [p\<lparr>oid := next_oid db\<rparr>],
         next_oid := Suc (next_oid db)\<rparr>)"

text \<open>
  Lines 628 to 677, the second loop: each entry is looked up again; the model document is
  read and inserted, then the patient document, which refers to it.
\<close>

fun insert_patients ::
  "json_dir \<Rightarrow> nat \<Rightarrow> bool \<Rightarrow> database \<Rightarrow> (int \<times> series) list \<Rightarrow> nat list
     \<Rightarrow> (error + nat list) \<times> database" where
  "insert_patients fs now by_id db [] pat_ids = (Inr pat_ids, db)"
| "insert_patients fs now by_id db ((human, s) # rest) pat_ids =
     (case get_patient_collection db human s of
        Inl e \<Rightarrow> (Inl e, db)
      | Inr (_ # _) \<Rightarrow> (Inl already_present, db)
      | Inr [] \<Rightarrow>
          (case model_file fs by_id human s of
             Inl e \<Rightarrow> (Inl e, db)
           | Inr model_dict \<Rightarrow>
               (let (model_id, db1) =
                      insert_model (model_dict\<lparr>model_datetime_creation := Some now\<rparr>) db
                in case patient_file fs by_id human s of
                     Inl e \<Rightarrow> (Inl e, db1)
                   | Inr pat_dict \<Rightarrow>
                       (let (patient_id, db2) =
                              insert_patient
                                (pat_dict\<lparr>datetime_creation := Some now,
                                          models := Some model_id\<rparr>) db1
                        in insert_patients fs now by_id db2 rest (pat_ids @ [patient_id])))))"

text \<open>
  The list both loops run over: built from a non-empty \<^verbatim>\<open>internal_id_list\<close>, else
  \<^verbatim>\<open>patients_list\<close> itself, and iterating \<^verbatim>\<open>None\<close> raises \<^verbatim>\<open>TypeError\<close>.
\<close>

definition by_internal_id :: "int list option \<Rightarrow> bool" where
  "by_internal_id internal_id_list =
     (case internal_id_list of Some (_ # _) \<Rightarrow> True | _ \<Rightarrow> False)"

definition patients_of_call ::
  "json_dir \<Rightarrow> (int \<times> series) list option \<Rightarrow> int list option
     \<Rightarrow> error + (int \<times> series) list" where
  "patients_of_call fs patients_list internal_id_list =
     (if patients_list = None \<and> internal_id_list = None
      then Inl (SystemError ''Provide patient list or internal id list.'')
      else if patients_list \<noteq> None \<and> internal_id_list \<noteq> None
      then Inl (SystemError ''Either patient list or internal id list can be defined.'')
      else (case internal_id_list of
              Some (i # rest) \<Rightarrow> build_patients_list fs (i # rest)
            | _ \<Rightarrow> (case patients_list of None \<Rightarrow> Inl TypeError | Some ps \<Rightarrow> Inr ps)))"

definition upload_patients ::
  "json_dir \<Rightarrow> nat \<Rightarrow> database \<Rightarrow> (int \<times> series) list option \<Rightarrow> int list option
     \<Rightarrow> (error + nat list) \<times> database" where
  "upload_patients fs now db patients_list internal_id_list =
     (case patients_of_call fs patients_list internal_id_list of
        Inl e \<Rightarrow> (Inl e, db)
      | Inr ps \<Rightarrow>
          (case validate_patients fs db (by_internal_id internal_id_list) ps of
             Some e \<Rightarrow> (Inl e, db)
           | None \<Rightarrow>
               insert_patients fs now (by_internal_id internal_id_list) db ps []))"

section \<open>Notions used in the statements\<close>

text \<open>\<^verbatim>\<open><=\<close> on numbers, false on \<^verbatim>\<open>NaN\<close> like every comparison.\<close>

definition num_le :: "pynum \<Rightarrow> pynum \<Rightarrow> bool" where
  "num_le x y = (num_lt x y \<or> (x = y \<and> x \<noteq> NaN))"

text \<open>Stored bounds cross when both are present and the maximum is below the minimum.\<close>

definition crossed :: "bounds \<Rightarrow> bool" where
  "crossed b = below (max_b b) (min_b b)"

text \<open>
  The invariant as claim C9 words it: minimum and maximum are absent together, and when
  both are present \<^verbatim>\<open>min <= max\<close>.
\<close>

definition claimed_inv :: "bounds \<Rightarrow> bool" where
  "claimed_inv b =
     (case (min_b b, max_b b) of
        (None, None) \<Rightarrow> True
      | (Some lo, Some hi) \<Rightarrow> num_le lo hi
      | _ \<Rightarrow> False)"

text \<open>
  The invariant the code keeps: minimum and maximum are absent together, and when both
  are present the maximum is not below the minimum, which for two numbers other than
  \<^verbatim>\<open>NaN\<close> is \<^verbatim>\<open>min <= max\<close>.
\<close>

definition bounds_inv :: "bounds \<Rightarrow> bool" where
  "bounds_inv b =
     (case (min_b b, max_b b) of
        (None, None) \<Rightarrow> True
      | (Some lo, Some hi) \<Rightarrow> \<not> num_lt hi lo
      | _ \<Rightarrow> False)"

text \<open>
  A value that is a number other than \<^verbatim>\<open>NaN\<close>. Two values mix \<^verbatim>\<open>NaN\<close> into bounds
  when neither bound is stored yet and one value is \<^verbatim>\<open>NaN\<close> while the other is such a
  number.
\<close>

fun is_num :: "pynum option \<Rightarrow> bool" where
  "is_num None = False"
| "is_num (Some NaN) = False"
| "is_num (Some x) = True"

definition mixes_nan :: "bounds \<Rightarrow> pynum option \<Rightarrow> pynum option \<Rightarrow> bool" where
  "mixes_nan b v w =
     (min_b b = None \<and> max_b b = None
      \<and> ((v = Some NaN \<and> is_num w) \<or> (w = Some NaN \<and> is_num v)))"

text \<open>The cohort document after the two writes that precede the aggregation.\<close>

definition added :: "cohort_doc \<Rightarrow> nat list \<Rightarrow> cohort_doc" where
  "added c ids =
     c\<lparr>patient_ids := add_to_set (patient_ids c) ids,
       number_patients := int (length (add_to_set (patient_ids c) ids))\<rparr>"

text \<open>
  The fields of a patient record that the height and weight blocks read, and the two
  derived fields.
\<close>

definition core ::
  "patient_doc \<Rightarrow>
     internal_info option \<times> pynum option \<times> pynum option \<times> pynum option \<times> pynum option"
  where
  "core p = (internal_info p, height p, weight p, bmi p, bsa p)"

definition derived_fields :: "database \<Rightarrow> (pynum option \<times> pynum option) list" where
  "derived_fields db = map (\<lambda>p. (bmi p, bsa p)) (patient_coll db)"

text \<open>
  The derived fields after a recomputation for one human: the records with the internal
  id all get the two new values, the other records keep theirs.
\<close>

definition recomputed ::
  "int \<Rightarrow> pynum option \<Rightarrow> pynum option \<Rightarrow> database \<Rightarrow> (pynum option \<times> pynum option) list"
  where
  "recomputed iid b s db =
     map (\<lambda>p. if has_internal_id iid p then (b, s) else (bmi p, bsa p)) (patient_coll db)"

text \<open>The database after the writes of age and gender, when their checks pass.\<close>

definition after_age_gender :: "int \<Rightarrow> pyval \<Rightarrow> pyval \<Rightarrow> database \<Rightarrow> database" where
  "after_age_gender iid age_v gender_v db =
     (let db1 = (if truthy age_v then update_many iid (\<lambda>p. p\<lparr>age := num_of age_v\<rparr>) db
                 else db)
      in if truthy gender_v then update_many iid (\<lambda>p. p\<lparr>gender := str_of gender_v\<rparr>) db1
         else db1)"

section \<open>Example data\<close>

definition blank_patient :: patient_doc where
  "blank_patient =
     \<lparr>oid = 0, internal_info = None, age = None, gender = None, height = None, weight = None,
      bmi = None, bsa = None, origin_location = None, models = None, datetime_creation = None\<rparr>"

definition no_bounds :: bounds where
  "no_bounds = \<lparr>min_b = None, max_b = None\<rparr>"

definition pat_a :: patient_doc where
  "pat_a = blank_patient\<lparr>oid := 1, height := Some (Finite 170), weight := Some (Finite 70)\<rparr>"

definition pat_b :: patient_doc where
  "pat_b = blank_patient\<lparr>oid := 2, height := Some (Finite 175), weight := None\<rparr>"

text \<open>A cohort with one member and the bounds of that member.\<close>

definition clinic_cohort :: cohort_doc where
  "clinic_cohort =
     \<lparr>cohort_oid = 7, cohort_name = ''clinic'', patient_ids = [1], number_patients = 1,
      height_bounds = \<lparr>min_b = Some (Finite 170), max_b = Some (Finite 170)\<rparr>,
      weight_bounds = \<lparr>min_b = Some (Finite 70), max_b = Some (Finite 70)\<rparr>\<rparr>"

definition clinic_db :: database where
  "clinic_db =
     \<lparr>patient_coll = [pat_a, pat_b], models_coll = [], cohort_coll = [clinic_cohort],
      next_oid = 8\<rparr>"

text \<open>A cohort whose stored height bounds cross: the minimum is above the maximum.\<close>

definition crossed_cohort :: cohort_doc where
  "crossed_cohort =
     \<lparr>cohort_oid = 7, cohort_name = ''crossed'', patient_ids = [], number_patients = 0,
      height_bounds = \<lparr>min_b = Some (Finite 180), max_b = Some (Finite 160)\<rparr>, weight_bounds = no_bounds\<rparr>"

definition crossed_db :: database where
  "crossed_db =
     \<lparr>patient_coll = [pat_a, pat_b], models_coll = [], cohort_coll = [crossed_cohort],
      next_oid = 8\<rparr>"

text \<open>
  A cohort without members and without bounds, next to a patient whose height is
  \<^verbatim>\<open>NaN\<close> and a patient of 200 cm, human 900.
\<close>

definition pat_nan :: patient_doc where
  "pat_nan = blank_patient\<lparr>oid := 9, height := Some NaN, weight := Some (Finite 60)\<rparr>"

definition pat_tall :: patient_doc where
  "pat_tall =
     blank_patient\<lparr>oid := 21,
       internal_info := Some \<lparr>internal_id = 900, series = SeriesStr ''SER00001''\<rparr>,
       height := Some (Finite 200)\<rparr>"

definition fresh_cohort :: cohort_doc where
  "fresh_cohort =
     \<lparr>cohort_oid = 7, cohort_name = ''fresh'', patient_ids = [], number_patients = 0,
      height_bounds = no_bounds, weight_bounds = no_bounds\<rparr>"

definition fresh_db :: database where
  "fresh_db =
     \<lparr>patient_coll = [pat_b, pat_nan, pat_tall], models_coll = [],
      cohort_coll = [fresh_cohort], next_oid = 30\<rparr>"

text \<open>A cohort whose stored array of members holds one id twice.\<close>

definition doubled_cohort :: cohort_doc where
  "doubled_cohort =
     \<lparr>cohort_oid = 7, cohort_name = ''doubled'', patient_ids = [1, 1], number_patients = 2,
      height_bounds = \<lparr>min_b = Some (Finite 170), max_b = Some (Finite 170)\<rparr>,
      weight_bounds = \<lparr>min_b = Some (Finite 70), max_b = Some (Finite 70)\<rparr>\<rparr>"

definition doubled_db :: database where
  "doubled_db =
     \<lparr>patient_coll = [pat_a, pat_b], models_coll = [], cohort_coll = [doubled_cohort],
      next_oid = 8\<rparr>"

text \<open>Two records of human 740 that carry the same pair of series in opposite orders.\<close>

definition pat_89 :: patient_doc where
  "pat_89 =
     blank_patient\<lparr>oid := 3,
       internal_info :=
         Some \<lparr>internal_id = 740, series = SeriesList [''SER00008'', ''SER00009'']\<rparr>\<rparr>"

definition pat_98 :: patient_doc where
  "pat_98 =
     blank_patient\<lparr>oid := 4,
       internal_info :=
         Some \<lparr>internal_id = 740, series = SeriesList [''SER00009'', ''SER00008'']\<rparr>\<rparr>"

definition mirrored_db :: database where
  "mirrored_db =
     \<lparr>patient_coll = [pat_89, pat_98], models_coll = [], cohort_coll = [], next_oid = 8\<rparr>"

definition single_db :: database where
  "single_db =
     \<lparr>patient_coll = [pat_89], models_coll = [], cohort_coll = [], next_oid = 8\<rparr>"

text \<open>Two records of human 843 under one and the same pair of series.\<close>

definition pat_twin :: "nat \<Rightarrow> patient_doc" where
  "pat_twin i =
     blank_patient\<lparr>oid := i,
       internal_info :=
         Some \<lparr>internal_id = 843, series = SeriesList [''SER00009'', ''SER00005'']\<rparr>\<rparr>"

definition twin_db :: database where
  "twin_db =
     \<lparr>patient_coll = [pat_twin 5, pat_twin 6], models_coll = [], cohort_coll = [],
      next_oid = 8\<rparr>"

text \<open>
  Two records of human 843, as in the repository's test data: the first has no weight,
  the second weighs 93 kg. One record of human 850 with a weight of 36 kg and no height,
  and one of human 663 with a height of 100 cm and no weight.
\<close>

definition pat_843_a :: patient_doc where
  "pat_843_a =
     blank_patient\<lparr>oid := 11,
       internal_info := Some \<lparr>internal_id = 843, series = SeriesStr ''SER00005''\<rparr>\<rparr>"

definition pat_843_b :: patient_doc where
  "pat_843_b =
     blank_patient\<lparr>oid := 12,
       internal_info :=
         Some \<lparr>internal_id = 843, series = SeriesList [''SER00005'', ''SER00009'']\<rparr>,
       weight := Some (Finite 93)\<rparr>"

definition pat_850 :: patient_doc where
  "pat_850 =
     blank_patient\<lparr>oid := 13,
       internal_info := Some \<lparr>internal_id = 850, series = SeriesStr ''SER00002''\<rparr>,
       weight := Some (Finite 36)\<rparr>"

definition pat_663 :: patient_doc where
  "pat_663 =
     blank_patient\<lparr>oid := 14,
       internal_info := Some \<lparr>internal_id = 663, series = SeriesStr ''SER00302''\<rparr>,
       height := Some (Finite 100)\<rparr>"

definition ward_db :: database where
  "ward_db =
     \<lparr>patient_coll = [pat_843_a, pat_843_b, pat_850, pat_663], models_coll = [],
      cohort_coll = [], next_oid = 20\<rparr>"

text \<open>
  An instance of the float computations: the exact value on real numbers, rounded to the
  nearest hundredth with a tie to the even one, and \<^verbatim>\<open>NaN\<close> on any other argument.
  It is the float result wherever every float operation involved is exact, as for 36 kg
  or 144 kg with 100 cm and, for the body mass index, 93 kg with 200 cm.
\<close>

definition round2 :: "real \<Rightarrow> real" where
  "round2 x =
     (let y = x * 100; f = \<lfloor>y\<rfloor>; d = y - of_int f
      in (if d < 1 / 2 then of_int f
          else if 1 / 2 < d then of_int (f + 1)
          else if even f then of_int f
          else of_int (f + 1)) / 100)"

definition exact_ops :: float_ops where
  "exact_ops =
     \<lparr>bmi_value =
        (\<lambda>w h. case (w, h) of
                  (Finite a, Finite b) \<Rightarrow>
                    if b = 0 then Inl ZeroDivisionError
                    else Inr (Finite (round2 (a / (b / 100) ^ 2)))
                | _ \<Rightarrow> Inr NaN),
      bsa_value =
        (\<lambda>w h. case (w, h) of
                  (Finite a, Finite b) \<Rightarrow>
                    if a * b < 0 then Inl (ValueError ''math domain error'')
                    else Inr (Finite (round2 (sqrt (a * b / 3600))))
                | _ \<Rightarrow> Inr NaN)\<rparr>"

text \<open>
  An upload directory with the series layout: human 722 has the directory
  \<^verbatim>\<open>SER00004\<close> with a patient file and a model file. And a database without documents.
\<close>

definition new_patient_722 :: patient_doc where
  "new_patient_722 =
     blank_patient\<lparr>
       internal_info := Some \<lparr>internal_id = 722, series = SeriesStr ''SER00004''\<rparr>,
       height := Some (Finite 180), weight := Some (Finite 80)\<rparr>"

definition new_model_722 :: model_doc where
  "new_model_722 = \<lparr>model_oid = 0, model_payload = ''heart'', model_datetime_creation = None\<rparr>"

definition upload_dir :: json_dir where
  "upload_dir =
     \<lparr>listing = (\<lambda>h. if h = 722 then Some True else None),
      flat_patient = (\<lambda>h. None),
      flat_model = (\<lambda>h. None),
      series_patient =
        (\<lambda>h name. if h = 722 \<and> name = ''SER00004'' then Some new_patient_722 else None),
      series_model =
        (\<lambda>h name. if h = 722 \<and> name = ''SER00004'' then Some new_model_722 else None)\<rparr>"

definition empty_db :: database where
  "empty_db = \<lparr>patient_coll = [], models_coll = [], cohort_coll = [], next_oid = 1\<rparr>"

text \<open>The empty database after the upload of human 722, at time 5.\<close>

definition uploaded_db :: database where
  "uploaded_db =
     \<lparr>patient_coll =
        [new_patient_722\<lparr>oid := 2, datetime_creation := Some 5, models := Some 1\<rparr>],
      models_coll = [new_model_722\<lparr>model_oid := 1, model_datetime_creation := Some 5\<rparr>],
      cohort_coll = [], next_oid = 3\<rparr>"

section \<open>Properties\<close>

subsection \<open>Patient identity resolution\<close>

lemma to_query_cases:
  "to_query db iid s =
     (if 1 < length (find_patients db iid s) then Inl more_than_one
      else Inr (find_patients db iid s))"
  by (simp add: to_query_def Let_def)

lemma get_patient_collection_run_pair:
  "get_patient_collection_run db iid (SeriesList [a, b]) =
     (if 1 < length (find_patients db iid (SeriesList [a, b]))
      then ([SeriesList [a, b]], Inl more_than_one)
      else if find_patients db iid (SeriesList [a, b]) = []
      then ([SeriesList [a, b], SeriesList [b, a]], to_query db iid (SeriesList [b, a]))
      else ([SeriesList [a, b]], Inr (find_patients db iid (SeriesList [a, b]))))"
  by (simp add: get_patient_collection_run_def to_query_cases)

lemmas lookup_code =
  get_patient_collection_def get_patient_collection_run_def to_query_def find_patients_def
  has_internal_id_def more_than_one_def Let_def

lemmas lookup_examples =
  blank_patient_def pat_89_def pat_98_def pat_twin_def mirrored_db_def single_db_def twin_db_def

text \<open>
  Claim C3, as amended. Provided the patient collection does not hold a match for both
  orders of the pair \<open>[s1, s2]\<close> (so in particular when at most one record carries the
  pair, in either order), \<^verbatim>\<open>get_patient_collection(internal_id, [s1, s2])\<close> and
  \<^verbatim>\<open>get_patient_collection(internal_id, [s2, s1])\<close> have the same outcome: the same
  record, the same empty result or the same fatal error. A query that finds no match in
  the order given is sent again with the pair reversed, and the outcome of that second
  query is the outcome of the call.
\<close>

theorem pair_lookup_either_order:
  assumes "find_patients db iid (SeriesList [s1, s2]) = []
           \<or> find_patients db iid (SeriesList [s2, s1]) = []"
  shows "get_patient_collection db iid (SeriesList [s1, s2]) =
         get_patient_collection db iid (SeriesList [s2, s1])
       \<and> (find_patients db iid (SeriesList [s1, s2]) = [] \<longrightarrow>
            get_patient_collection_run db iid (SeriesList [s1, s2]) =
              ([SeriesList [s1, s2], SeriesList [s2, s1]],
               to_query db iid (SeriesList [s2, s1])))"
  using assms
  by (auto simp: get_patient_collection_def get_patient_collection_run_pair to_query_cases)

text \<open>
  Witness: one record of human 740 stored under \<open>[SER00008, SER00009]\<close>, as in the
  repository's test of interchangeability. The reversed pair has no match, is retried,
  and both orders return that record.
\<close>

theorem pair_lookup_either_order_witness:
  "find_patients single_db 740 (SeriesList [''SER00009'', ''SER00008'']) = []
   \<and> get_patient_collection single_db 740 (SeriesList [''SER00009'', ''SER00008'']) = Inr [pat_89]
   \<and> get_patient_collection single_db 740 (SeriesList [''SER00008'', ''SER00009'']) = Inr [pat_89]
   \<and> get_patient_collection_run single_db 740 (SeriesList [''SER00009'', ''SER00008'']) =
       ([SeriesList [''SER00009'', ''SER00008''], SeriesList [''SER00008'', ''SER00009'']],
        Inr [pat_89])"
proof -
  have h: "find_patients single_db 740 (SeriesList [''SER00009'', ''SER00008'']) = []"
    by (simp add: lookup_code lookup_examples)
  have v: "to_query single_db 740 (SeriesList [''SER00008'', ''SER00009'']) = Inr [pat_89]"
    by (simp add: lookup_code lookup_examples)
  note t = pair_lookup_either_order [of single_db 740 "''SER00009''" "''SER00008''",
      OF disjI1 [OF h]]
  have run: "get_patient_collection_run single_db 740 (SeriesList [''SER00009'', ''SER00008'']) =
       ([SeriesList [''SER00009'', ''SER00008''], SeriesList [''SER00008'', ''SER00009'']],
        Inr [pat_89])"
    using t h v by simp
  then have a: "get_patient_collection single_db 740 (SeriesList [''SER00009'', ''SER00008''])
       = Inr [pat_89]"
    by (simp add: get_patient_collection_def)
  have b: "get_patient_collection single_db 740 (SeriesList [''SER00008'', ''SER00009''])
       = Inr [pat_89]"
    using t a by simp
  show ?thesis
    using h a b run by simp
qed

text \<open>
  The claim as stated fails where two records carry the pair in opposite orders: each
  order finds its own record at the first query, and the two calls return different
  records.
\<close>

theorem pair_lookup_counterexample:
  "get_patient_collection mirrored_db 740 (SeriesList [''SER00008'', ''SER00009'']) = Inr [pat_89]
   \<and> get_patient_collection mirrored_db 740 (SeriesList [''SER00009'', ''SER00008'']) = Inr [pat_98]
   \<and> pat_89 \<noteq> pat_98"
  by (simp add: lookup_code lookup_examples)

text \<open>
  Claim C7. Whatever the series argument is (absent, a string or a list), if the query
  it resolves to matches more than one patient record, \<^verbatim>\<open>get_patient_collection\<close> raises
  \<^verbatim>\<open>SystemExit\<close> after that one query: the reversed pair is not tried. When a pair has no
  match in the order given and its reversal matches more than one record, the retry
  raises \<^verbatim>\<open>SystemExit\<close> as well.
\<close>

theorem ambiguous_lookup_is_fatal:
  "(1 < length (find_patients db iid s) \<longrightarrow>
      get_patient_collection_run db iid s = ([s], Inl more_than_one))
   \<and> (find_patients db iid (SeriesList [s1, s2]) = []
        \<and> 1 < length (find_patients db iid (SeriesList [s2, s1])) \<longrightarrow>
      get_patient_collection db iid (SeriesList [s1, s2]) = Inl more_than_one)"
proof -
  have "get_patient_collection_run db iid s = ([s], Inl more_than_one)"
    if "1 < length (find_patients db iid s)"
    using that by (cases s) (simp_all add: get_patient_collection_run_def to_query_cases)
  then show ?thesis
    by (simp add: get_patient_collection_def get_patient_collection_run_pair to_query_cases)
qed

text \<open>
  Witness: human 843 has two records under \<open>[SER00009, SER00005]\<close>. The lookup by id
  alone and the lookup by the stored pair are ambiguous at once; the lookup by the
  reversed pair is ambiguous at the retry.
\<close>

theorem ambiguous_lookup_is_fatal_witness:
  "1 < length (find_patients twin_db 843 NoSeries)
   \<and> get_patient_collection_run twin_db 843 NoSeries = ([NoSeries], Inl more_than_one)
   \<and> find_patients twin_db 843 (SeriesList [''SER00005'', ''SER00009'']) = []
   \<and> 1 < length (find_patients twin_db 843 (SeriesList [''SER00009'', ''SER00005'']))
   \<and> get_patient_collection twin_db 843 (SeriesList [''SER00005'', ''SER00009''])
       = Inl more_than_one"
proof -
  have h1: "1 < length (find_patients twin_db 843 NoSeries)"
    by (simp add: lookup_code lookup_examples)
  have h2: "find_patients twin_db 843 (SeriesList [''SER00005'', ''SER00009'']) = []"
    by (simp add: lookup_code lookup_examples)
  have h3: "1 < length (find_patients twin_db 843 (SeriesList [''SER00009'', ''SER00005'']))"
    by (simp add: lookup_code lookup_examples)
  from ambiguous_lookup_is_fatal [of twin_db 843 NoSeries "''SER00005''" "''SER00009''"] h1 h2 h3
  show ?thesis
    by blast
qed

subsection \<open>The fold over one dimension\<close>

lemma fold_dimension_None [simp]: "fold_dimension b None = b"
  by (simp add: fold_dimension_def below_def split: option.splits)

lemma num_lt_cases:
  "num_lt x y =
     (case (x, y) of
        (Finite a, Finite b) \<Rightarrow> a < b
      | (Finite a, Infinity) \<Rightarrow> True
      | (MinusInfinity, Finite b) \<Rightarrow> True
      | (MinusInfinity, Infinity) \<Rightarrow> True
      | _ \<Rightarrow> False)"
  by (cases x; cases y) simp_all

lemma num_lt_irrefl [simp]: "\<not> num_lt x x"
  by (cases x) simp_all

lemma num_lt_trans: "num_lt x y \<Longrightarrow> num_lt y z \<Longrightarrow> num_lt x z"
  by (cases x; cases y; cases z) simp_all

lemma num_lt_asym: "num_lt x y \<Longrightarrow> \<not> num_lt y x"
  by (cases x; cases y) simp_all

lemma num_lt_total: "x \<noteq> NaN \<Longrightarrow> y \<noteq> NaN \<Longrightarrow> x \<noteq> y \<Longrightarrow> num_lt x y \<or> num_lt y x"
  by (cases x; cases y) auto

lemma num_lt_NaN [simp]: "\<not> num_lt NaN x" "\<not> num_lt x NaN"
  by (cases x; simp)+


lemma fold_dimension_inv: "bounds_inv b \<Longrightarrow> bounds_inv (fold_dimension b v)"
  by (cases b; cases "min_b b"; cases "max_b b"; cases v)
     (auto simp: fold_dimension_def below_def bounds_inv_def dest: num_lt_trans num_lt_asym)

lemma fold_dimension_commute:
  assumes "\<not> crossed b" and "\<not> mixes_nan b v w"
  shows "fold_dimension (fold_dimension b v) w = fold_dimension (fold_dimension b w) v"
proof -
  obtain lo hi where b: "b = \<lparr>min_b = lo, max_b = hi\<rparr>"
    by (cases b) simp
  show ?thesis
    using assms unfolding b
    by (cases lo; cases hi; cases v; cases w)
       (auto simp: fold_dimension_def below_def crossed_def mixes_nan_def num_lt_cases
          split: pynum.splits)
qed





subsection \<open>The cohort document after a call\<close>

lemma find_cohort_update:
  "(\<And>c. cohort_oid (f c) = cohort_oid c) \<Longrightarrow>
   find_cohort (update_cohort f cs i) i = map_option f (find_cohort cs i)"
  by (induction cs) auto

lemma fold_patient_simps [simp]:
  "height_bounds (fold_patient c p) = fold_dimension (height_bounds c) (height p)"
  "weight_bounds (fold_patient c p) = fold_dimension (weight_bounds c) (weight p)"
  "patient_ids (fold_patient c p) = patient_ids c"
  "number_patients (fold_patient c p) = number_patients c"
  "cohort_oid (fold_patient c p) = cohort_oid c"
  by (simp_all add: fold_patient_def)

lemma added_simps [simp]:
  "height_bounds (added c ids) = height_bounds c"
  "weight_bounds (added c ids) = weight_bounds c"
  "patient_ids (added c ids) = add_to_set (patient_ids c) ids"
  "number_patients (added c ids) = int (length (add_to_set (patient_ids c) ids))"
  by (simp_all add: added_def)

lemma set_bounds_simps [simp]:
  "height_bounds (set_bounds l c) = height_bounds l"
  "weight_bounds (set_bounds l c) = weight_bounds l"
  "patient_ids (set_bounds l c) = patient_ids c"
  "number_patients (set_bounds l c) = number_patients c"
  by (simp_all add: set_bounds_def)

lemma foldl_fold_patient [simp]:
  "height_bounds (foldl fold_patient c ps) = foldl fold_dimension (height_bounds c) (map height ps)"
  "weight_bounds (foldl fold_patient c ps) = foldl fold_dimension (weight_bounds c) (map weight ps)"
  "patient_ids (foldl fold_patient c ps) = patient_ids c"
  by (induction ps arbitrary: c) simp_all

lemma fold_patients_Inr:
  "\<forall>i\<in>set ids. find_patient ps i \<noteq> None \<Longrightarrow>
   fold_patients ps ids c = Inr (foldl fold_patient c (map (\<lambda>i. the (find_patient ps i)) ids))"
  by (induction ids arbitrary: c) auto


lemma fold_patients_preserves:
  assumes "\<And>c p. P c \<Longrightarrow> P (fold_patient c p)"
  shows "P c \<Longrightarrow> fold_patients ps ids c = Inr l \<Longrightarrow> P l"
  by (induction ids arbitrary: c) (auto split: option.splits intro: assms)


lemma add_to_set_distinct: "distinct arr \<Longrightarrow> distinct (add_to_set arr xs)"
  by (induction xs arbitrary: arr) auto

lemma add_to_set_members: "set xs \<subseteq> set arr \<Longrightarrow> add_to_set arr xs = arr"
  by (induction xs arbitrary: arr) auto

lemma add_patients_to_cohort_patients:
  "patient_coll (snd (add_patients_to_cohort db cid ids)) = patient_coll db"
  by (simp add: add_patients_to_cohort_def update_max_min_patient_dimensions_in_cohort_def
      Let_def find_cohort_update split: option.splits sum.splits prod.splits)

lemma add_patients_to_cohort_cohort:
  assumes "find_cohort (cohort_coll db) cid = Some c"
  shows "find_cohort (cohort_coll (snd (add_patients_to_cohort db cid ids))) cid =
         Some (case fold_patients (patient_coll db) ids (added c ids) of
                 Inl e \<Rightarrow> added c ids
               | Inr l \<Rightarrow> set_bounds l (added c ids))"
  using assms
  by (simp add: add_patients_to_cohort_def update_max_min_patient_dimensions_in_cohort_def
      Let_def find_cohort_update set_bounds_def added_def
      split: option.splits sum.splits prod.splits)

lemma add_patients_to_cohort_outcome:
  assumes "find_cohort (cohort_coll db) cid = Some c"
  shows "fst (add_patients_to_cohort db cid ids) =
         (case fold_patients (patient_coll db) ids (added c ids) of
            Inl e \<Rightarrow> Inl e
          | Inr l \<Rightarrow> Inr (add_to_set (patient_ids c) ids))"
  using assms
  by (simp add: add_patients_to_cohort_def update_max_min_patient_dimensions_in_cohort_def
      Let_def find_cohort_update set_bounds_def added_def
      split: option.splits sum.splits prod.splits)

lemma set_max_min_cohort:
  assumes "find_cohort (cohort_coll db) cid = Some c"
  shows "find_cohort (cohort_coll (snd (set_max_min_patient_dimensions_in_cohort db cid))) cid =
         Some (case fold_patients (patient_coll db) (patient_ids c) c of
                 Inl e \<Rightarrow> c
               | Inr l \<Rightarrow> set_bounds l c)"
  using assms
  by (simp add: set_max_min_patient_dimensions_in_cohort_def
      Let_def find_cohort_update set_bounds_def split: option.splits sum.splits prod.splits)

text \<open>One call that finds every patient, at the level of the cohort document.\<close>

lemma add_patients_to_cohort_ok:
  assumes "find_cohort (cohort_coll db) cid = Some c"
    and "\<forall>i\<in>set ids. find_patient (patient_coll db) i \<noteq> None"
  shows "\<exists>db1 c1. add_patients_to_cohort db cid ids = (Inr (add_to_set (patient_ids c) ids), db1)
           \<and> patient_coll db1 = patient_coll db
           \<and> find_cohort (cohort_coll db1) cid = Some c1
           \<and> patient_ids c1 = add_to_set (patient_ids c) ids
           \<and> height_bounds c1 =
               foldl fold_dimension (height_bounds c)
                 (map (\<lambda>i. height (the (find_patient (patient_coll db) i))) ids)
           \<and> weight_bounds c1 =
               foldl fold_dimension (weight_bounds c)
                 (map (\<lambda>i. weight (the (find_patient (patient_coll db) i))) ids)"
proof -
  let ?r = "add_patients_to_cohort db cid ids"
  have f: "fold_patients (patient_coll db) ids (added c ids) =
           Inr (foldl fold_patient (added c ids)
                  (map (\<lambda>i. the (find_patient (patient_coll db) i)) ids))"
    by (rule fold_patients_Inr [OF assms(2)])
  have "fst ?r = Inr (add_to_set (patient_ids c) ids)"
    by (simp add: add_patients_to_cohort_outcome [OF assms(1)] f)
  moreover have "patient_coll (snd ?r) = patient_coll db"
    by (rule add_patients_to_cohort_patients)
  moreover have "find_cohort (cohort_coll (snd ?r)) cid =
      Some (set_bounds (foldl fold_patient (added c ids)
                  (map (\<lambda>i. the (find_patient (patient_coll db) i)) ids)) (added c ids))"
    by (simp add: add_patients_to_cohort_cohort [OF assms(1)] f)
  ultimately show ?thesis
    by (cases ?r) (simp add: comp_def)
qed



lemmas cohort_code =
  add_patients_to_cohort_def update_max_min_patient_dimensions_in_cohort_def
  set_max_min_patient_dimensions_in_cohort_def set_bounds_def fold_patient_def fold_dimension_def
  below_def Let_def

lemmas cohort_examples =
  blank_patient_def no_bounds_def pat_a_def pat_b_def clinic_cohort_def clinic_db_def
  crossed_cohort_def crossed_db_def doubled_cohort_def doubled_db_def
  pat_nan_def pat_tall_def fresh_cohort_def fresh_db_def

subsection \<open>Cohort dimension aggregation\<close>

text \<open>
  Claim C1, as amended. Take a cohort whose stored height bounds and stored weight bounds
  do not cross (the maximum is not below the minimum) and two patients A and B of the
  patient collection such that, for a dimension of which the cohort stores neither bound
  yet, A and B do not have a \<^verbatim>\<open>NaN\<close> value the one and a number the other. Calling
  \<^verbatim>\<open>add_patients_to_cohort\<close> with A and then with B leaves the same height and weight
  bounds as calling it with B and then with A; both calls return, and the bounds are the
  stored ones with the two patients' values folded in, a patient whose value is absent
  being ignored. The same holds for one call with the list \<open>[A, B]\<close> against one call
  with \<open>[B, A]\<close>.
\<close>

theorem add_patients_order_independent:
  assumes "find_cohort (cohort_coll db) cid = Some c"
    and "\<not> crossed (height_bounds c)" and "\<not> crossed (weight_bounds c)"
    and "find_patient (patient_coll db) a = Some pa"
    and "find_patient (patient_coll db) b = Some pb"
    and "\<not> mixes_nan (height_bounds c) (height pa) (height pb)"
    and "\<not> mixes_nan (weight_bounds c) (weight pa) (weight pb)"
  shows "\<exists>dab dba cab cba.
           add_batches db cid [[a], [b]] = (None, dab)
         \<and> add_batches db cid [[b], [a]] = (None, dba)
         \<and> find_cohort (cohort_coll dab) cid = Some cab
         \<and> find_cohort (cohort_coll dba) cid = Some cba
         \<and> height_bounds cab = height_bounds cba
         \<and> weight_bounds cab = weight_bounds cba
         \<and> height_bounds cab
             = fold_dimension (fold_dimension (height_bounds c) (height pa)) (height pb)
         \<and> weight_bounds cab
             = fold_dimension (fold_dimension (weight_bounds c) (weight pa)) (weight pb)
         \<and> find_cohort (cohort_coll (snd (add_patients_to_cohort db cid [a, b]))) cid
             = Some (set_bounds cab (added c [a, b]))
         \<and> find_cohort (cohort_coll (snd (add_patients_to_cohort db cid [b, a]))) cid
             = Some (set_bounds cab (added c [b, a]))"
proof -
  obtain d1 c1 where 1:
      "add_patients_to_cohort db cid [a] = (Inr (add_to_set (patient_ids c) [a]), d1)"
      "patient_coll d1 = patient_coll db" "find_cohort (cohort_coll d1) cid = Some c1"
      "height_bounds c1 = fold_dimension (height_bounds c) (height pa)"
      "weight_bounds c1 = fold_dimension (weight_bounds c) (weight pa)"
    using add_patients_to_cohort_ok [OF assms(1), of "[a]"] assms(4) by auto
  obtain d2 c2 where 2:
      "add_patients_to_cohort d1 cid [b] = (Inr (add_to_set (patient_ids c1) [b]), d2)"
      "find_cohort (cohort_coll d2) cid = Some c2"
      "height_bounds c2 = fold_dimension (height_bounds c1) (height pb)"
      "weight_bounds c2 = fold_dimension (weight_bounds c1) (weight pb)"
    using add_patients_to_cohort_ok [OF 1(3), of "[b]"] assms(5) 1(2) by auto
  obtain e1 k1 where 3:
      "add_patients_to_cohort db cid [b] = (Inr (add_to_set (patient_ids c) [b]), e1)"
      "patient_coll e1 = patient_coll db" "find_cohort (cohort_coll e1) cid = Some k1"
      "height_bounds k1 = fold_dimension (height_bounds c) (height pb)"
      "weight_bounds k1 = fold_dimension (weight_bounds c) (weight pb)"
    using add_patients_to_cohort_ok [OF assms(1), of "[b]"] assms(5) by auto
  obtain e2 k2 where 4:
      "add_patients_to_cohort e1 cid [a] = (Inr (add_to_set (patient_ids k1) [a]), e2)"
      "find_cohort (cohort_coll e2) cid = Some k2"
      "height_bounds k2 = fold_dimension (height_bounds k1) (height pa)"
      "weight_bounds k2 = fold_dimension (weight_bounds k1) (weight pa)"
    using add_patients_to_cohort_ok [OF 3(3), of "[a]"] assms(4) 3(2) by auto
  have ab: "add_batches db cid [[a], [b]] = (None, d2)"
    by (simp add: 1(1) 2(1))
  have ba: "add_batches db cid [[b], [a]] = (None, e2)"
    by (simp add: 3(1) 4(1))
  have h: "height_bounds c2 = height_bounds k2"
    by (simp add: 1 2 3 4 fold_dimension_commute [OF assms(2) assms(6)])
  have w: "weight_bounds c2 = weight_bounds k2"
    by (simp add: 1 2 3 4 fold_dimension_commute [OF assms(3) assms(7)])
  have h2: "height_bounds c2
      = fold_dimension (fold_dimension (height_bounds c) (height pa)) (height pb)"
    by (simp add: 1 2)
  have w2: "weight_bounds c2
      = fold_dimension (fold_dimension (weight_bounds c) (weight pa)) (weight pb)"
    by (simp add: 1 2)
  have one_ab: "find_cohort (cohort_coll (snd (add_patients_to_cohort db cid [a, b]))) cid
      = Some (set_bounds c2 (added c [a, b]))"
    by (simp add: add_patients_to_cohort_cohort [OF assms(1)] assms(4,5) set_bounds_def h2 w2)
  have one_ba: "find_cohort (cohort_coll (snd (add_patients_to_cohort db cid [b, a]))) cid
      = Some (set_bounds c2 (added c [b, a]))"
    by (simp add: add_patients_to_cohort_cohort [OF assms(1)] assms(4,5) set_bounds_def h2 w2
        fold_dimension_commute [OF assms(2) assms(6)]
        fold_dimension_commute [OF assms(3) assms(7)])
  show ?thesis
    using ab ba 2(2) 4(2) h w h2 w2 one_ab one_ba by blast
qed

text \<open>
  Witness: the clinic cohort (bounds 170 to 170 and 70 to 70) and the patients 1 (170 cm,
  70 kg) and 2 (175 cm, no weight). In either order the height bounds end at 170 to 175
  and the weight bounds stay at 70 to 70.
\<close>

theorem add_patients_order_independent_witness:
  "find_cohort (cohort_coll clinic_db) 7 = Some clinic_cohort
   \<and> \<not> crossed (height_bounds clinic_cohort) \<and> \<not> crossed (weight_bounds clinic_cohort)
   \<and> find_patient (patient_coll clinic_db) 1 = Some pat_a
   \<and> find_patient (patient_coll clinic_db) 2 = Some pat_b
   \<and> \<not> mixes_nan (height_bounds clinic_cohort) (height pat_a) (height pat_b)
   \<and> \<not> mixes_nan (weight_bounds clinic_cohort) (weight pat_a) (weight pat_b)
   \<and> (\<exists>dab dba cab cba.
           add_batches clinic_db 7 [[1], [2]] = (None, dab)
         \<and> add_batches clinic_db 7 [[2], [1]] = (None, dba)
         \<and> find_cohort (cohort_coll dab) 7 = Some cab
         \<and> find_cohort (cohort_coll dba) 7 = Some cba
         \<and> height_bounds cab = height_bounds cba
         \<and> weight_bounds cab = weight_bounds cba
         \<and> height_bounds cab = \<lparr>min_b = Some (Finite 170), max_b = Some (Finite 175)\<rparr>
         \<and> weight_bounds cab = \<lparr>min_b = Some (Finite 70), max_b = Some (Finite 70)\<rparr>)"
proof -
  have h1: "find_cohort (cohort_coll clinic_db) 7 = Some clinic_cohort"
    by (simp add: cohort_examples)
  have h2: "\<not> crossed (height_bounds clinic_cohort)"
    by (simp add: cohort_examples crossed_def below_def)
  have h3: "\<not> crossed (weight_bounds clinic_cohort)"
    by (simp add: cohort_examples crossed_def below_def)
  have h4: "find_patient (patient_coll clinic_db) 1 = Some pat_a"
    by (simp add: cohort_examples)
  have h5: "find_patient (patient_coll clinic_db) 2 = Some pat_b"
    by (simp add: cohort_examples)
  have h6: "\<not> mixes_nan (height_bounds clinic_cohort) (height pat_a) (height pat_b)"
    by (simp add: cohort_examples mixes_nan_def)
  have h7: "\<not> mixes_nan (weight_bounds clinic_cohort) (weight pat_a) (weight pat_b)"
    by (simp add: cohort_examples mixes_nan_def)
  have v1: "fold_dimension (fold_dimension (height_bounds clinic_cohort) (height pat_a))
              (height pat_b) = \<lparr>min_b = Some (Finite 170), max_b = Some (Finite 175)\<rparr>"
    by (simp add: cohort_examples fold_dimension_def below_def)
  have v2: "fold_dimension (fold_dimension (weight_bounds clinic_cohort) (weight pat_a))
              (weight pat_b) = \<lparr>min_b = Some (Finite 70), max_b = Some (Finite 70)\<rparr>"
    by (simp add: cohort_examples fold_dimension_def below_def)
  from add_patients_order_independent [OF h1 h2 h3 h4 h5 h6 h7]
  obtain dab dba cab cba where
      "add_batches clinic_db 7 [[1], [2]] = (None, dab)"
      "add_batches clinic_db 7 [[2], [1]] = (None, dba)"
      "find_cohort (cohort_coll dab) 7 = Some cab"
      "find_cohort (cohort_coll dba) 7 = Some cba"
      "height_bounds cab = height_bounds cba"
      "weight_bounds cab = weight_bounds cba"
      "height_bounds cab = \<lparr>min_b = Some (Finite 170), max_b = Some (Finite 175)\<rparr>"
      "weight_bounds cab = \<lparr>min_b = Some (Finite 70), max_b = Some (Finite 70)\<rparr>"
    unfolding v1 v2 by blast
  then show ?thesis
    using h1 h2 h3 h4 h5 h6 h7 by blast
qed

text \<open>
  The claim as stated, for every cohort state and every pair of patients, fails twice.
  On stored bounds that cross: with a stored height minimum of 180 above a stored maximum
  of 160, adding the patient of 170 cm and then the one of 175 cm ends with the maximum
  175, the other order with the maximum 160. And on \<^verbatim>\<open>NaN\<close>: for a cohort without
  bounds, adding the patient whose height is \<^verbatim>\<open>NaN\<close> and then the one of 175 cm
  ends with \<^verbatim>\<open>NaN\<close> as minimum and maximum, the other order with 175 as both.
\<close>

theorem add_patients_order_counterexample:
  "map_option (\<lambda>c. max_b (height_bounds c))
     (find_cohort (cohort_coll (snd (add_batches crossed_db 7 [[1], [2]]))) 7)
     = Some (Some (Finite 175))
   \<and> map_option (\<lambda>c. max_b (height_bounds c))
     (find_cohort (cohort_coll (snd (add_batches crossed_db 7 [[2], [1]]))) 7)
     = Some (Some (Finite 160))
   \<and> map_option height_bounds
     (find_cohort (cohort_coll (snd (add_batches fresh_db 7 [[9], [2]]))) 7)
     = Some \<lparr>min_b = Some NaN, max_b = Some NaN\<rparr>
   \<and> map_option height_bounds
     (find_cohort (cohort_coll (snd (add_batches fresh_db 7 [[2], [9]]))) 7)
     = Some \<lparr>min_b = Some (Finite 175), max_b = Some (Finite 175)\<rparr>"
  by (simp add: cohort_examples cohort_code)

text \<open>
  Claim C2 fails on the code: \<^verbatim>\<open>set_max_min_patient_dimensions_in_cohort\<close> folds the
  members into the bounds stored before the call and never resets them. For the patient
  of 200 cm, added to the cohort without bounds and then given the height 150 by
  \<^verbatim>\<open>update_human_demographics\<close>, the recompute stores the minimum 150 and keeps the
  maximum 200, although the only member is 150 cm tall.
\<close>

theorem recompute_keeps_stale_maximum:
  "map height
     (patient_coll
        (snd (update_human_demographics fl (snd (add_patients_to_cohort fresh_db 7 [21])) 900
                PNone PNone (PInt 150) PNone PNone)))
     = [Some (Finite 175), Some NaN, Some (Finite 150)]
   \<and> map_option (\<lambda>c. (patient_ids c, height_bounds c))
       (find_cohort
          (cohort_coll
             (snd (set_max_min_patient_dimensions_in_cohort
                     (snd (update_human_demographics fl
                             (snd (add_patients_to_cohort fresh_db 7 [21])) 900
                             PNone PNone (PInt 150) PNone PNone)) 7))) 7)
     = Some ([21], \<lparr>min_b = Some (Finite 150), max_b = Some (Finite 200)\<rparr>)"
  by (simp add: cohort_examples cohort_code update_human_demographics_def set_height_def
      set_weight_def set_origin_location_def update_many_def find_one_by_internal_id_def
      has_internal_id_def is_number_def)




text \<open>
  Claim C9, as amended. Both cohort aggregation operations, \<^verbatim>\<open>add_patients_to_cohort\<close>
  with any list of patient ids and \<^verbatim>\<open>set_max_min_patient_dimensions_in_cohort\<close>,
  preserve the invariant that, for each of height and weight, the cohort's minimum is
  absent if and only if its maximum is absent, and when both are present the maximum is
  not below the minimum: \<^verbatim>\<open>min <= max\<close> whenever both are numbers other than
  \<^verbatim>\<open>NaN\<close>. They preserve it also when the call raises on a patient id without a
  document.
\<close>

theorem cohort_bounds_invariant_preserved:
  assumes "find_cohort (cohort_coll db) cid = Some c"
    and "bounds_inv (height_bounds c)" and "bounds_inv (weight_bounds c)"
  shows "(\<exists>c'. find_cohort (cohort_coll (snd (add_patients_to_cohort db cid ids))) cid = Some c'
            \<and> bounds_inv (height_bounds c') \<and> bounds_inv (weight_bounds c'))
       \<and> (\<exists>c'. find_cohort (cohort_coll (snd (set_max_min_patient_dimensions_in_cohort db cid))) cid
                 = Some c'
            \<and> bounds_inv (height_bounds c') \<and> bounds_inv (weight_bounds c'))"
proof -
  let ?P = "\<lambda>c. bounds_inv (height_bounds c) \<and> bounds_inv (weight_bounds c)"
  have step: "\<And>c p. ?P c \<Longrightarrow> ?P (fold_patient c p)"
    by (simp add: fold_dimension_inv)
  have keep: "\<And>d ids l. ?P d \<Longrightarrow> fold_patients (patient_coll db) ids d = Inr l \<Longrightarrow> ?P l"
    using fold_patients_preserves [where P = ?P, OF step] by blast
  have start: "?P (added c ids)" "?P c"
    using assms by simp_all
  have "?P (case fold_patients (patient_coll db) ids (added c ids) of
              Inl e \<Rightarrow> added c ids | Inr l \<Rightarrow> set_bounds l (added c ids))"
    using keep [OF start(1)] start(1) by (auto split: sum.splits)
  moreover have "?P (case fold_patients (patient_coll db) (patient_ids c) c of
              Inl e \<Rightarrow> c | Inr l \<Rightarrow> set_bounds l c)"
    using keep [OF start(2)] start(2) by (auto split: sum.splits)
  ultimately show ?thesis
    by (simp add: add_patients_to_cohort_cohort [OF assms(1)] set_max_min_cohort [OF assms(1)])
qed

text \<open>
  Witness: the clinic cohort and the call that adds patient 2 (175 cm, no weight).
\<close>

theorem cohort_bounds_invariant_preserved_witness:
  "find_cohort (cohort_coll clinic_db) 7 = Some clinic_cohort
   \<and> bounds_inv (height_bounds clinic_cohort) \<and> bounds_inv (weight_bounds clinic_cohort)
   \<and> (\<exists>c'. find_cohort (cohort_coll (snd (add_patients_to_cohort clinic_db 7 [2]))) 7 = Some c'
          \<and> bounds_inv (height_bounds c') \<and> bounds_inv (weight_bounds c'))
   \<and> (\<exists>c'. find_cohort
              (cohort_coll (snd (set_max_min_patient_dimensions_in_cohort clinic_db 7))) 7
             = Some c'
          \<and> bounds_inv (height_bounds c') \<and> bounds_inv (weight_bounds c'))"
proof -
  have h1: "find_cohort (cohort_coll clinic_db) 7 = Some clinic_cohort"
    by (simp add: cohort_examples)
  have h2: "bounds_inv (height_bounds clinic_cohort)"
    by (simp add: cohort_examples bounds_inv_def)
  have h3: "bounds_inv (weight_bounds clinic_cohort)"
    by (simp add: cohort_examples bounds_inv_def)
  from cohort_bounds_invariant_preserved [OF h1 h2 h3, of "[2]"] h1 h2 h3
  show ?thesis
    by blast
qed

text \<open>
  The claim as stated, with \<^verbatim>\<open>min <= max\<close> whenever both are present, fails on
  \<^verbatim>\<open>NaN\<close>: the cohort without bounds satisfies the invariant, the patient whose height
  is \<^verbatim>\<open>NaN\<close> takes the third branch of the chain, and the stored minimum and maximum
  are then both \<^verbatim>\<open>NaN\<close>, for which \<^verbatim>\<open>min <= max\<close> is false.
\<close>

theorem cohort_bounds_invariant_counterexample:
  "find_cohort (cohort_coll fresh_db) 7 = Some fresh_cohort
   \<and> claimed_inv (height_bounds fresh_cohort) \<and> claimed_inv (weight_bounds fresh_cohort)
   \<and> map_option height_bounds
       (find_cohort (cohort_coll (snd (add_patients_to_cohort fresh_db 7 [9]))) 7)
     = Some \<lparr>min_b = Some NaN, max_b = Some NaN\<rparr>
   \<and> \<not> claimed_inv \<lparr>min_b = Some NaN, max_b = Some NaN\<rparr>"
  by (simp add: cohort_examples cohort_code claimed_inv_def num_le_def)

text \<open>
  Claim C10, as amended. After every call to \<^verbatim>\<open>add_patients_to_cohort\<close> on a cohort that
  exists, \<^verbatim>\<open>number_patients\<close> equals the length of \<^verbatim>\<open>patient_ids\<close>; \<^verbatim>\<open>patient_ids\<close>
  contains no duplicate ids provided it contained none before the call; and adding ids
  that are all members already leaves \<^verbatim>\<open>patient_ids\<close> unchanged, and
  \<^verbatim>\<open>number_patients\<close> unchanged provided it was the length of \<^verbatim>\<open>patient_ids\<close> before.
\<close>

theorem add_patients_members_count:
  assumes "find_cohort (cohort_coll db) cid = Some c"
  shows "\<exists>c'. find_cohort (cohort_coll (snd (add_patients_to_cohort db cid ids))) cid = Some c'
           \<and> number_patients c' = int (length (patient_ids c'))
           \<and> (distinct (patient_ids c) \<longrightarrow> distinct (patient_ids c'))
           \<and> (set ids \<subseteq> set (patient_ids c) \<longrightarrow>
                patient_ids c' = patient_ids c
                \<and> (number_patients c = int (length (patient_ids c)) \<longrightarrow>
                     number_patients c' = number_patients c))"
  by (simp add: add_patients_to_cohort_cohort [OF assms] add_to_set_distinct add_to_set_members
      split: sum.splits)

text \<open>
  Witness: the clinic cohort has the one member 1 and the count 1; adding 1 again leaves
  both as they are.
\<close>

theorem add_patients_members_count_witness:
  "find_cohort (cohort_coll clinic_db) 7 = Some clinic_cohort
   \<and> distinct (patient_ids clinic_cohort)
   \<and> set [1] \<subseteq> set (patient_ids clinic_cohort)
   \<and> number_patients clinic_cohort = int (length (patient_ids clinic_cohort))
   \<and> (\<exists>c'. find_cohort (cohort_coll (snd (add_patients_to_cohort clinic_db 7 [1]))) 7 = Some c'
          \<and> number_patients c' = int (length (patient_ids c'))
          \<and> distinct (patient_ids c')
          \<and> patient_ids c' = [1]
          \<and> number_patients c' = 1)"
proof -
  have h1: "find_cohort (cohort_coll clinic_db) 7 = Some clinic_cohort"
    by (simp add: cohort_examples)
  have h2: "distinct (patient_ids clinic_cohort)"
    by (simp add: cohort_examples)
  have h3: "set [1] \<subseteq> set (patient_ids clinic_cohort)"
    by (simp add: cohort_examples)
  have h4: "number_patients clinic_cohort = int (length (patient_ids clinic_cohort))"
    by (simp add: cohort_examples)
  have v: "patient_ids clinic_cohort = [1]" "number_patients clinic_cohort = 1"
    by (simp_all add: cohort_examples)
  from add_patients_members_count [OF h1, of "[1]"] h2 h3 h4
  obtain c' where
      "find_cohort (cohort_coll (snd (add_patients_to_cohort clinic_db 7 [1]))) 7 = Some c'"
      "number_patients c' = int (length (patient_ids c'))" "distinct (patient_ids c')"
      "patient_ids c' = patient_ids clinic_cohort"
      "number_patients c' = number_patients clinic_cohort"
    by blast
  then show ?thesis
    using h1 h2 h3 h4 v by auto
qed

text \<open>
  The claim as stated, no duplicates after every call, fails on a stored array that holds
  an id twice: \<^verbatim>\<open>$addToSet\<close> appends what is missing and leaves the stored array as
  it is, so adding patient 2 to the members \<open>[1, 1]\<close> gives \<open>[1, 1, 2]\<close>.
\<close>

theorem stored_duplicates_counterexample:
  "map_option patient_ids
     (find_cohort (cohort_coll (snd (add_patients_to_cohort doubled_db 7 [2]))) 7)
     = Some [1, 1, 2]
   \<and> \<not> distinct [1, 1, 2 :: nat]"
  by (simp add: cohort_examples cohort_code)

subsection \<open>Demographic update and derived metrics\<close>

lemma has_internal_id_keep:
  "internal_info (f p) = internal_info p \<Longrightarrow> has_internal_id iid (f p) = has_internal_id iid p"
  by (simp add: has_internal_id_def)

lemma find_update_many:
  assumes "\<And>p. internal_info (f p) = internal_info p"
  shows "find_one_by_internal_id (update_many iid f db) iid =
         map_option f (find_one_by_internal_id db iid)"
proof -
  have "List.find (has_internal_id iid) (map (\<lambda>p. if has_internal_id iid p then f p else p) ps)
        = map_option f (List.find (has_internal_id iid) ps)" for ps
    by (induction ps) (simp_all add: has_internal_id_keep [of f, OF assms])
  then show ?thesis
    by (simp add: find_one_by_internal_id_def update_many_def)
qed

lemmas demographics_code =
  update_human_demographics_def set_height_def set_weight_def set_origin_location_def
  update_many_def find_one_by_internal_id_def has_internal_id_def is_number_def
  calculate_bmi_def calculate_mosteller_bsa_def valid_locations_def Let_def

lemmas demographics_examples =
  blank_patient_def pat_843_a_def pat_843_b_def pat_850_def pat_663_def ward_db_def
  exact_ops_def round2_def

text \<open>
  The two blocks in closed form: what the write of a truthy number leaves behind, by the
  companion value of the first record with the internal id.
\<close>

lemma set_height_absent:
  assumes "num_of new = Some x" and "truthy new"
    and "find_one_by_internal_id db iid = Some first" and "weight first = None"
  shows "set_height fl iid new db = (None, update_many iid (\<lambda>p. p\<lparr>height := Some x\<rparr>) db)"
  using assms
  by (simp add: set_height_def find_update_many)

lemma set_height_present:
  assumes "num_of new = Some x" and "truthy new"
    and "find_one_by_internal_id db iid = Some first" and "weight first = Some w"
    and "calculate_bmi fl (Some w) (Some x) = Inr b"
    and "calculate_mosteller_bsa fl (Some w) (Some x) = Inr s"
  shows "set_height fl iid new db =
           (None, update_many iid (\<lambda>p. p\<lparr>bsa := s\<rparr>)
                    (update_many iid (\<lambda>p. p\<lparr>bmi := b\<rparr>)
                       (update_many iid (\<lambda>p. p\<lparr>height := Some x\<rparr>) db)))"
  using assms
  by (simp add: set_height_def find_update_many)

lemma set_weight_absent:
  assumes "num_of new = Some y" and "truthy new"
    and "find_one_by_internal_id db iid = Some first" and "height first = None"
  shows "set_weight fl iid new db = (None, update_many iid (\<lambda>p. p\<lparr>weight := Some y\<rparr>) db)"
  using assms
  by (simp add: set_weight_def find_update_many)

lemma set_weight_present:
  assumes "num_of new = Some y" and "truthy new"
    and "find_one_by_internal_id db iid = Some first" and "height first = Some h"
    and "calculate_bmi fl (Some y) (Some h) = Inr b"
    and "calculate_mosteller_bsa fl (Some y) (Some h) = Inr s"
  shows "set_weight fl iid new db =
           (None, update_many iid (\<lambda>p. p\<lparr>bsa := s\<rparr>)
                    (update_many iid (\<lambda>p. p\<lparr>bmi := b\<rparr>)
                       (update_many iid (\<lambda>p. p\<lparr>weight := Some y\<rparr>) db)))"
  using assms
  by (simp add: set_weight_def find_update_many)

lemma set_absent_noop [simp]:
  "set_height fl iid PNone db = (None, db)" "set_weight fl iid PNone db = (None, db)"
  by (simp_all add: set_height_def set_weight_def)

text \<open>
  The writes of age, gender and origin location leave alone what the two blocks read
  and the derived fields.
\<close>

lemma core_update_many_other [simp]:
  "map core (patient_coll (update_many iid (\<lambda>p. p\<lparr>age := a\<rparr>) db)) = map core (patient_coll db)"
  "map core (patient_coll (update_many iid (\<lambda>p. p\<lparr>gender := g\<rparr>) db)) = map core (patient_coll db)"
  "map core (patient_coll (update_many iid (\<lambda>p. p\<lparr>origin_location := l\<rparr>) db))
     = map core (patient_coll db)"
  by (simp_all add: update_many_def core_def)

lemma find_core:
  "map core ps2 = map core ps \<Longrightarrow>
   map_option core (List.find (has_internal_id iid) ps2)
     = map_option core (List.find (has_internal_id iid) ps)"
proof (induction ps2 arbitrary: ps)
  case Nil
  then show ?case by simp
next
  case (Cons p2 rest2)
  then obtain p rest where ps: "ps = p # rest" "core p2 = core p" "map core rest2 = map core rest"
    by (cases ps) auto
  have "has_internal_id iid p2 = has_internal_id iid p"
    using ps(2) by (simp add: core_def has_internal_id_def)
  then show ?case
    using Cons.IH [OF ps(3)] ps by simp
qed

lemma derived_by_core:
  "map core (patient_coll db2) = map core (patient_coll db) \<Longrightarrow>
   derived_fields db2 = derived_fields db \<and> recomputed iid b s db2 = recomputed iid b s db"
proof -
  assume a: "map core (patient_coll db2) = map core (patient_coll db)"
  have 1: "(\<lambda>p. (bmi p, bsa p)) = (\<lambda>(ii, h, w, bm, bs). (bm, bs)) \<circ> core"
    by (auto simp: core_def)
  have 2: "(\<lambda>p. if has_internal_id iid p then (b, s) else (bmi p, bsa p))
      = (\<lambda>(ii, h, w, bm, bs).
            if (case ii of None \<Rightarrow> False | Some i \<Rightarrow> internal_id i = iid) then (b, s)
            else (bm, bs)) \<circ> core"
    by (auto simp: core_def has_internal_id_def)
  show ?thesis
    unfolding derived_fields_def recomputed_def 1 2 map_map [symmetric] a by simp
qed

lemma derived_after_write:
  "derived_fields (update_many iid (\<lambda>p. p\<lparr>height := v\<rparr>) db) = derived_fields db"
  "derived_fields (update_many iid (\<lambda>p. p\<lparr>weight := v\<rparr>) db) = derived_fields db"
  "derived_fields (update_many iid (\<lambda>p. p\<lparr>bsa := s\<rparr>)
                    (update_many iid (\<lambda>p. p\<lparr>bmi := b\<rparr>)
                       (update_many iid (\<lambda>p. p\<lparr>height := v\<rparr>) db))) = recomputed iid b s db"
  "derived_fields (update_many iid (\<lambda>p. p\<lparr>bsa := s\<rparr>)
                    (update_many iid (\<lambda>p. p\<lparr>bmi := b\<rparr>)
                       (update_many iid (\<lambda>p. p\<lparr>weight := v\<rparr>) db))) = recomputed iid b s db"
  by (simp_all add: derived_fields_def recomputed_def update_many_def has_internal_id_def)

lemma recomputed_after_write:
  "recomputed iid b s (update_many iid (\<lambda>p. p\<lparr>height := v\<rparr>) db) = recomputed iid b s db"
  "recomputed iid b s
     (update_many iid (\<lambda>p. p\<lparr>bsa := s1\<rparr>)
        (update_many iid (\<lambda>p. p\<lparr>bmi := b1\<rparr>)
           (update_many iid (\<lambda>p. p\<lparr>height := v\<rparr>) db))) = recomputed iid b s db"
  by (simp_all add: recomputed_def update_many_def has_internal_id_def)

lemma derived_after_location:
  "derived_fields (snd (set_origin_location iid loc db)) = derived_fields db"
  by (simp add: set_origin_location_def derived_fields_def update_many_def)

text \<open>
  The height block when its computations return: it leaves the new height on the first
  record with the internal id.
\<close>

lemma set_height_returns:
  assumes "num_of new = Some x" and "truthy new"
    and "find_one_by_internal_id db iid = Some first"
    and "calculate_bmi fl (weight first) (Some x) = Inr b1"
    and "calculate_mosteller_bsa fl (weight first) (Some x) = Inr s1"
  shows "\<exists>db3 first3. set_height fl iid new db = (None, db3)
           \<and> find_one_by_internal_id db3 iid = Some first3
           \<and> height first3 = Some x
           \<and> (\<forall>b s. recomputed iid b s db3 = recomputed iid b s db)"
proof (cases "weight first")
  case None
  show ?thesis
    using set_height_absent [OF assms(1,2,3) None, of fl] assms(3)
    by (simp add: find_update_many recomputed_after_write)
next
  case (Some w)
  show ?thesis
    using set_height_present [OF assms(1,2,3) Some, of fl b1 s1] assms(3,4,5) Some
    by (simp add: find_update_many recomputed_after_write)
qed

text \<open>
  The database after the writes of age and gender, and a call that passes their checks
  and supplies numbers as height and weight or leaves them out.
\<close>

lemma after_age_gender_core:
  "map core (patient_coll (after_age_gender iid age_v gender_v db)) = map core (patient_coll db)"
  by (simp add: after_age_gender_def Let_def)

lemma checks_pass:
  assumes "age_v = PNone \<or> (is_number age_v \<and> in_range_0_121 age_v)"
    and "gender_v = PNone \<or> gender_v = PStr ''male'' \<or> gender_v = PStr ''female''"
    and "height_v = PNone \<or> is_number height_v"
    and "weight_v = PNone \<or> is_number weight_v"
  shows "\<not> (\<not> is_number age_v \<and> age_v \<noteq> PNone)"
    and "\<not> (\<not> in_range_0_121 age_v \<and> age_v \<noteq> PNone)"
    and "\<not> (gender_v \<noteq> PStr ''male'' \<and> gender_v \<noteq> PStr ''female'' \<and> gender_v \<noteq> PNone)"
    and "\<not> (\<not> is_number height_v \<and> height_v \<noteq> PNone)"
    and "\<not> (\<not> is_number weight_v \<and> weight_v \<noteq> PNone)"
  using assms by auto

lemma call_after_checks:
  assumes "age_v = PNone \<or> (is_number age_v \<and> in_range_0_121 age_v)"
    and "gender_v = PNone \<or> gender_v = PStr ''male'' \<or> gender_v = PStr ''female''"
    and "height_v = PNone \<or> is_number height_v"
    and "weight_v = PNone \<or> is_number weight_v"
  shows "update_human_demographics fl db iid age_v gender_v height_v weight_v loc_v =
      (case set_height fl iid height_v (after_age_gender iid age_v gender_v db) of
         (Some e, db3) \<Rightarrow> (Some e, db3)
       | (None, db3) \<Rightarrow>
           (case set_weight fl iid weight_v db3 of
              (Some e, db4) \<Rightarrow> (Some e, db4)
            | (None, db4) \<Rightarrow> set_origin_location iid loc_v db4))"
  unfolding update_human_demographics_def after_age_gender_def Let_def
    if_not_P [OF checks_pass(1) [OF assms]] if_not_P [OF checks_pass(2) [OF assms]]
    if_not_P [OF checks_pass(3) [OF assms]] if_not_P [OF checks_pass(4) [OF assms]]
    if_not_P [OF checks_pass(5) [OF assms]]
  by simp

text \<open>
  Claim C8, as amended. Take a call of \<^verbatim>\<open>update_human_demographics\<close> that passes the
  checks of age and gender and supplies a non-zero number as height, as weight, or as
  both. The update is per human: each write goes to every record with the internal id,
  and the companion value is read from the first of these records, after the write. If
  only the height (resp. only the weight) is supplied and the stored weight (resp.
  height) of that record is present, the \<^verbatim>\<open>bmi\<close> and \<^verbatim>\<open>bsa\<close> fields of every record
  with the internal id are set to what \<^verbatim>\<open>calculate_bmi\<close> and
  \<^verbatim>\<open>calculate_mosteller_bsa\<close> return for the new value and that stored value; if it is
  absent, the \<^verbatim>\<open>bmi\<close> and \<^verbatim>\<open>bsa\<close> fields of all records are left unchanged. If both
  are supplied, the height update runs first, on the stored weight, and when it returns
  the weight update finds the new height: the fields end as what the two functions
  return for the new weight and the new height.
\<close>

theorem derived_metrics_on_update:
  assumes "age_v = PNone \<or> (is_number age_v \<and> in_range_0_121 age_v)"
    and "gender_v = PNone \<or> gender_v = PStr ''male'' \<or> gender_v = PStr ''female''"
    and "find_one_by_internal_id db iid = Some first"
    and "num_of new_h = Some x" and "truthy new_h"
    and "num_of new_w = Some y" and "truthy new_w"
  shows "(weight first = None \<longrightarrow>
            derived_fields
              (snd (update_human_demographics fl db iid age_v gender_v new_h PNone loc_v))
              = derived_fields db)
       \<and> (\<forall>w b s. weight first = Some w \<and> calculate_bmi fl (Some w) (Some x) = Inr b
                   \<and> calculate_mosteller_bsa fl (Some w) (Some x) = Inr s \<longrightarrow>
            derived_fields
              (snd (update_human_demographics fl db iid age_v gender_v new_h PNone loc_v))
              = recomputed iid b s db)
       \<and> (height first = None \<longrightarrow>
            derived_fields
              (snd (update_human_demographics fl db iid age_v gender_v PNone new_w loc_v))
              = derived_fields db)
       \<and> (\<forall>h b s. height first = Some h \<and> calculate_bmi fl (Some y) (Some h) = Inr b
                   \<and> calculate_mosteller_bsa fl (Some y) (Some h) = Inr s \<longrightarrow>
            derived_fields
              (snd (update_human_demographics fl db iid age_v gender_v PNone new_w loc_v))
              = recomputed iid b s db)
       \<and> (\<forall>b1 s1 b s. calculate_bmi fl (weight first) (Some x) = Inr b1
                   \<and> calculate_mosteller_bsa fl (weight first) (Some x) = Inr s1
                   \<and> calculate_bmi fl (Some y) (Some x) = Inr b
                   \<and> calculate_mosteller_bsa fl (Some y) (Some x) = Inr s \<longrightarrow>
            derived_fields
              (snd (update_human_demographics fl db iid age_v gender_v new_h new_w loc_v))
              = recomputed iid b s db)"
proof -
  let ?db2 = "after_age_gender iid age_v gender_v db"
  note core2 = after_age_gender_core [of iid age_v gender_v db]
  have nh: "new_h = PNone \<or> is_number new_h" and nw: "new_w = PNone \<or> is_number new_w"
    and nn: "PNone = PNone \<or> is_number PNone"
    using assms(4,6) by (simp_all add: is_number_def)
  note call_h = call_after_checks [OF assms(1,2) nh nn, of fl db iid loc_v]
  note call_w = call_after_checks [OF assms(1,2) nn nw, of fl db iid loc_v]
  note call_b = call_after_checks [OF assms(1,2) nh nw, of fl db iid loc_v]
  obtain first2 where f2: "find_one_by_internal_id ?db2 iid = Some first2"
      and c2: "core first2 = core first"
    using find_core [OF core2, of iid] assms(3) by (auto simp: find_one_by_internal_id_def)
  have same: "weight first2 = weight first" "height first2 = height first"
    using c2 by (simp_all add: core_def)
  note d2 = derived_by_core [OF core2]
  have 1: "derived_fields
             (snd (update_human_demographics fl db iid age_v gender_v new_h PNone loc_v))
              = derived_fields db" if "weight first = None"
    using that set_height_absent [OF assms(4,5) f2, of fl] same d2
    by (simp add: call_h derived_after_location derived_after_write)
  have 2: "derived_fields
             (snd (update_human_demographics fl db iid age_v gender_v new_h PNone loc_v))
              = recomputed iid b s db"
    if "weight first = Some w" "calculate_bmi fl (Some w) (Some x) = Inr b"
       "calculate_mosteller_bsa fl (Some w) (Some x) = Inr s" for w b s
    using that set_height_present [OF assms(4,5) f2, of w fl b s] same d2
    by (simp add: call_h derived_after_location derived_after_write)
  have 3: "derived_fields
             (snd (update_human_demographics fl db iid age_v gender_v PNone new_w loc_v))
              = derived_fields db" if "height first = None"
    using that set_weight_absent [OF assms(6,7) f2, of fl] same d2
    by (simp add: call_w derived_after_location derived_after_write)
  have 4: "derived_fields
             (snd (update_human_demographics fl db iid age_v gender_v PNone new_w loc_v))
              = recomputed iid b s db"
    if "height first = Some h" "calculate_bmi fl (Some y) (Some h) = Inr b"
       "calculate_mosteller_bsa fl (Some y) (Some h) = Inr s" for h b s
    using that set_weight_present [OF assms(6,7) f2, of h fl b s] same d2
    by (simp add: call_w derived_after_location derived_after_write)
  have 5: "derived_fields
             (snd (update_human_demographics fl db iid age_v gender_v new_h new_w loc_v))
              = recomputed iid b s db"
    if "calculate_bmi fl (weight first) (Some x) = Inr b1"
       "calculate_mosteller_bsa fl (weight first) (Some x) = Inr s1"
       "calculate_bmi fl (Some y) (Some x) = Inr b"
       "calculate_mosteller_bsa fl (Some y) (Some x) = Inr s" for b1 s1 b s
  proof -
    from set_height_returns [OF assms(4,5) f2, of fl b1 s1] that(1,2) same
    obtain db3 first3 where h: "set_height fl iid new_h ?db2 = (None, db3)"
        and f3: "find_one_by_internal_id db3 iid = Some first3"
        and h3: "height first3 = Some x"
        and r3: "recomputed iid b s db3 = recomputed iid b s ?db2"
      by auto
    show ?thesis
      using set_weight_present [OF assms(6,7) f3 h3 that(3,4)] r3 d2
      by (simp add: call_b h derived_after_location derived_after_write)
  qed
  show ?thesis
    using 1 2 3 4 5 by blast
qed

text \<open>
  Witness, with exact arithmetic: in the ward, human 850 weighs 36 kg and has no height,
  human 663 is 100 cm tall and has no weight. A height of 100 for 850 and a weight of 36
  for 663 set \<^verbatim>\<open>bmi\<close> to 36 and \<^verbatim>\<open>bsa\<close> to 1 on that record; a weight for 850, whose
  height is absent, and a height for 663, whose weight is absent, leave the derived
  fields of all four records absent. A height of 100 together with a weight of 144 for
  850 ends with \<^verbatim>\<open>bmi\<close> 144 and \<^verbatim>\<open>bsa\<close> 2, the values for the two new numbers.
\<close>

theorem derived_metrics_on_update_witness:
  "find_one_by_internal_id ward_db 850 = Some pat_850
   \<and> find_one_by_internal_id ward_db 663 = Some pat_663
   \<and> num_of (PInt 100) = Some (Finite 100) \<and> truthy (PInt 100)
   \<and> num_of (PInt 36) = Some (Finite 36) \<and> truthy (PInt 36)
   \<and> num_of (PInt 144) = Some (Finite 144) \<and> truthy (PInt 144)
   \<and> weight pat_850 = Some (Finite 36) \<and> height pat_850 = None
   \<and> height pat_663 = Some (Finite 100) \<and> weight pat_663 = None
   \<and> calculate_bmi exact_ops (Some (Finite 36)) (Some (Finite 100)) = Inr (Some (Finite 36))
   \<and> calculate_mosteller_bsa exact_ops (Some (Finite 36)) (Some (Finite 100))
       = Inr (Some (Finite 1))
   \<and> calculate_bmi exact_ops (Some (Finite 144)) (Some (Finite 100)) = Inr (Some (Finite 144))
   \<and> calculate_mosteller_bsa exact_ops (Some (Finite 144)) (Some (Finite 100))
       = Inr (Some (Finite 2))
   \<and> derived_fields
        (snd (update_human_demographics exact_ops ward_db 850 PNone PNone (PInt 100) PNone PNone))
       = [(None, None), (None, None), (Some (Finite 36), Some (Finite 1)), (None, None)]
   \<and> derived_fields
        (snd (update_human_demographics exact_ops ward_db 663 PNone PNone PNone (PInt 36) PNone))
       = [(None, None), (None, None), (None, None), (Some (Finite 36), Some (Finite 1))]
   \<and> derived_fields
        (snd (update_human_demographics exact_ops ward_db 850 PNone PNone PNone (PInt 36) PNone))
       = [(None, None), (None, None), (None, None), (None, None)]
   \<and> derived_fields
        (snd (update_human_demographics exact_ops ward_db 663 PNone PNone (PInt 100) PNone PNone))
       = [(None, None), (None, None), (None, None), (None, None)]
   \<and> derived_fields
        (snd (update_human_demographics exact_ops ward_db 850 PNone PNone (PInt 100) (PInt 144)
                PNone))
       = [(None, None), (None, None), (Some (Finite 144), Some (Finite 2)), (None, None)]"
proof -
  have f850: "find_one_by_internal_id ward_db 850 = Some pat_850"
    by (simp add: demographics_examples find_one_by_internal_id_def has_internal_id_def)
  have f663: "find_one_by_internal_id ward_db 663 = Some pat_663"
    by (simp add: demographics_examples find_one_by_internal_id_def has_internal_id_def)
  have n: "num_of (PInt 100) = Some (Finite 100)" "truthy (PInt 100)"
      "num_of (PInt 36) = Some (Finite 36)" "truthy (PInt 36)"
      "num_of (PInt 144) = Some (Finite 144)" "truthy (PInt 144)"
    by simp_all
  have p: "weight pat_850 = Some (Finite 36)" "height pat_850 = None"
      "height pat_663 = Some (Finite 100)" "weight pat_663 = None"
    by (simp_all add: demographics_examples)
  have b: "calculate_bmi exact_ops (Some (Finite 36)) (Some (Finite 100))
           = Inr (Some (Finite 36))"
    by (simp add: calculate_bmi_def exact_ops_def round2_def)
  have s: "calculate_mosteller_bsa exact_ops (Some (Finite 36)) (Some (Finite 100))
           = Inr (Some (Finite 1))"
    by (simp add: calculate_mosteller_bsa_def exact_ops_def round2_def)
  have b2: "calculate_bmi exact_ops (Some (Finite 144)) (Some (Finite 100))
           = Inr (Some (Finite 144))"
    by (simp add: calculate_bmi_def exact_ops_def round2_def)
  have s2: "calculate_mosteller_bsa exact_ops (Some (Finite 144)) (Some (Finite 100))
           = Inr (Some (Finite 2))"
    by (simp add: calculate_mosteller_bsa_def exact_ops_def round2_def)
  have d: "derived_fields ward_db = [(None, None), (None, None), (None, None), (None, None)]"
    by (simp add: derived_fields_def demographics_examples)
  have r850: "recomputed 850 bb ss ward_db = [(None, None), (None, None), (bb, ss), (None, None)]"
    for bb ss
    by (simp add: recomputed_def demographics_examples has_internal_id_def)
  have r663: "recomputed 663 bb ss ward_db = [(None, None), (None, None), (None, None), (bb, ss)]"
    for bb ss
    by (simp add: recomputed_def demographics_examples has_internal_id_def)
  note t850 = derived_metrics_on_update [OF disjI1 [OF refl] disjI1 [OF refl] f850 n(1,2,3,4),
      of exact_ops PNone]
  note t663 = derived_metrics_on_update [OF disjI1 [OF refl] disjI1 [OF refl] f663 n(1,2,3,4),
      of exact_ops PNone]
  note t850b = derived_metrics_on_update [OF disjI1 [OF refl] disjI1 [OF refl] f850 n(1,2,5,6),
      of exact_ops PNone]
  have 1: "derived_fields
        (snd (update_human_demographics exact_ops ward_db 850 PNone PNone (PInt 100) PNone PNone))
       = recomputed 850 (Some (Finite 36)) (Some (Finite 1)) ward_db"
    using t850 p(1) b s by blast
  have 2: "derived_fields
        (snd (update_human_demographics exact_ops ward_db 663 PNone PNone PNone (PInt 36) PNone))
       = recomputed 663 (Some (Finite 36)) (Some (Finite 1)) ward_db"
    using t663 p(3) b s by blast
  have 3: "derived_fields
        (snd (update_human_demographics exact_ops ward_db 850 PNone PNone PNone (PInt 36) PNone))
       = derived_fields ward_db"
    using t850 p(2) by blast
  have 4: "derived_fields
        (snd (update_human_demographics exact_ops ward_db 663 PNone PNone (PInt 100) PNone PNone))
       = derived_fields ward_db"
    using t663 p(4) by blast
  have 5: "derived_fields
        (snd (update_human_demographics exact_ops ward_db 850 PNone PNone (PInt 100) (PInt 144)
                PNone))
       = recomputed 850 (Some (Finite 144)) (Some (Finite 2)) ward_db"
    using t850b b s b2 s2 unfolding p(1) [symmetric] by blast
  show ?thesis
    using f850 f663 n p b s b2 s2 1 2 3 4 5 unfolding d r850 r663 by simp
qed

text \<open>
  The claim as stated, for every patient, fails where a human has several records. The
  first record of human 843 has no weight and the second weighs 93 kg: a height of 200
  is written to both, the weight read is the absent one of the first record, and the
  second record keeps its absent \<^verbatim>\<open>bmi\<close> and \<^verbatim>\<open>bsa\<close>, where 93 kg and 200 cm give a
  \<^verbatim>\<open>bmi\<close> of 23.25.
\<close>

theorem derived_metrics_counterexample:
  "update_human_demographics exact_ops ward_db 843 PNone PNone (PFloat (Finite 200)) PNone PNone
     = (None,
        ward_db\<lparr>patient_coll :=
          [pat_843_a\<lparr>height := Some (Finite 200)\<rparr>, pat_843_b\<lparr>height := Some (Finite 200)\<rparr>,
           pat_850, pat_663]\<rparr>)
   \<and> weight pat_843_b = Some (Finite 93) \<and> bmi pat_843_b = None \<and> bsa pat_843_b = None
   \<and> calculate_bmi exact_ops (Some (Finite 93)) (Some (Finite 200))
       = Inr (Some (Finite (93 / 4)))"
  by (simp add: demographics_code demographics_examples)

subsection \<open>Field validation\<close>

text \<open>
  Claim C5 fails on the code at an age that is a float inside 0 to 120 without being one
  of the integers: membership in \<^verbatim>\<open>range(0, 121)\<close> rejects it, whatever the other
  arguments are, and nothing is written.
\<close>

theorem fractional_age_is_rejected:
  "update_human_demographics fl db iid (PFloat (Finite (91 / 2))) gender_v height_v weight_v
     loc_v
     = (Some (ValueError ''Age not inside the valid range.''), db)"
  by (simp add: update_human_demographics_def is_number_def)

subsection \<open>Batch ingestion\<close>

lemma validate_patients_present:
  "(h, s) \<in> set ps \<Longrightarrow> get_patient_collection db h s \<noteq> Inr [] \<Longrightarrow>
   validate_patients fs db by_id ps \<noteq> None"
proof (induction ps)
  case Nil
  then show ?case by simp
next
  case (Cons p ps)
  obtain h' s' where p: "p = (h', s')"
    by (cases p)
  show ?case
  proof (cases "(h, s) = p")
    case True
    then show ?thesis
      using Cons.prems(2) p by (auto split: sum.splits list.splits)
  next
    case False
    then have "validate_patients fs db by_id ps \<noteq> None"
      using Cons by auto
    then show ?thesis
      by (auto simp: p split: sum.splits list.splits)
  qed
qed

lemma insert_patients_append:
  "insert_patients fs now by_id db (pre @ rest) acc =
     (case insert_patients fs now by_id db pre acc of
        (Inl e, d) \<Rightarrow> (Inl e, d)
      | (Inr ids, d) \<Rightarrow> insert_patients fs now by_id d rest ids)"
proof (induction pre arbitrary: db acc)
  case Nil
  then show ?case by simp
next
  case (Cons p pre)
  obtain h s where p: "p = (h, s)"
    by (cases p)
  show ?case
    by (simp add: p Cons.IH Let_def split: sum.splits list.splits prod.splits)
qed

lemma insert_patients_present:
  "get_patient_collection db h s \<noteq> Inr [] \<Longrightarrow>
   insert_patients fs now by_id db ((h, s) # post) acc =
     (Inl (case get_patient_collection db h s of Inl e \<Rightarrow> e | Inr _ \<Rightarrow> already_present), db)"
  by (simp split: sum.splits list.splits)

lemmas upload_code =
  upload_patients_def patients_of_call_def by_internal_id_def patient_file_def model_file_def
  insert_model_def insert_patient_def already_present_def present_at_start_def

lemmas upload_examples =
  blank_patient_def new_patient_722_def new_model_722_def upload_dir_def empty_db_def
  uploaded_db_def

text \<open>
  Claim C4, as amended. Take a call of \<^verbatim>\<open>upload_patients\<close> whose arguments give a list
  of patients. If the lookup of one of its entries finds a record (or is ambiguous) when
  the call starts, the call raises and the database is unchanged. If the first loop has
  passed and the lookup of an entry finds a record only when the second loop reaches it,
  after the entries before it have been inserted, the call raises as well (\<^verbatim>\<open>SystemExit\<close>,
  patient already present, or the error of the lookup), and the documents inserted for
  the entries before it stay in the database.
\<close>

theorem duplicate_upload_is_rejected:
  assumes "patients_of_call fs patients_list internal_id_list = Inr ps"
  shows "((h, s) \<in> set ps \<and> get_patient_collection db h s \<noteq> Inr [] \<longrightarrow>
            (\<exists>e. upload_patients fs now db patients_list internal_id_list = (Inl e, db)))
       \<and> (ps = pre @ (h, s) # post
            \<and> validate_patients fs db (by_internal_id internal_id_list) ps = None
            \<and> insert_patients fs now (by_internal_id internal_id_list) db pre [] = (Inr ids, db1)
            \<and> get_patient_collection db1 h s \<noteq> Inr [] \<longrightarrow>
            upload_patients fs now db patients_list internal_id_list =
              (Inl (case get_patient_collection db1 h s of
                      Inl e \<Rightarrow> e
                    | Inr _ \<Rightarrow> already_present), db1))"
proof (intro conjI impI)
  assume "(h, s) \<in> set ps \<and> get_patient_collection db h s \<noteq> Inr []"
  then have "validate_patients fs db (by_internal_id internal_id_list) ps \<noteq> None"
    using validate_patients_present by blast
  then show "\<exists>e. upload_patients fs now db patients_list internal_id_list = (Inl e, db)"
    by (auto simp: upload_patients_def assms)
next
  assume a: "ps = pre @ (h, s) # post
      \<and> validate_patients fs db (by_internal_id internal_id_list) ps = None
      \<and> insert_patients fs now (by_internal_id internal_id_list) db pre [] = (Inr ids, db1)
      \<and> get_patient_collection db1 h s \<noteq> Inr []"
  then have ps: "ps = pre @ (h, s) # post"
    and v: "validate_patients fs db (by_internal_id internal_id_list) ps = None"
    and i: "insert_patients fs now (by_internal_id internal_id_list) db pre [] = (Inr ids, db1)"
    and g: "get_patient_collection db1 h s \<noteq> Inr []"
    by blast+
  have ins: "insert_patients fs now (by_internal_id internal_id_list) db ps [] =
      (Inl (case get_patient_collection db1 h s of Inl e \<Rightarrow> e | Inr _ \<Rightarrow> already_present), db1)"
    unfolding ps
    by (simp add: insert_patients_append i insert_patients_present [OF g]
        del: insert_patients.simps)
  show "upload_patients fs now db patients_list internal_id_list =
      (Inl (case get_patient_collection db1 h s of Inl e \<Rightarrow> e | Inr _ \<Rightarrow> already_present), db1)"
    unfolding upload_patients_def assms by (simp add: v ins)
qed

text \<open>
  Witness. Human 850 with series \<open>SER00002\<close> is in the ward already: the upload raises
  and the ward is unchanged. Human 722 with series \<open>SER00004\<close> is new and listed twice:
  the first entry is inserted, the second finds it, and the call raises with the first
  entry's model and patient documents in the database.
\<close>

theorem duplicate_upload_is_rejected_witness:
  "patients_of_call upload_dir (Some [(850, SeriesStr ''SER00002'')]) None
     = Inr [(850, SeriesStr ''SER00002'')]
   \<and> get_patient_collection ward_db 850 (SeriesStr ''SER00002'') = Inr [pat_850]
   \<and> upload_patients upload_dir 5 ward_db (Some [(850, SeriesStr ''SER00002'')]) None
       = (Inl (present_at_start (850, SeriesStr ''SER00002'')), ward_db)
   \<and> patients_of_call upload_dir
         (Some [(722, SeriesStr ''SER00004''), (722, SeriesStr ''SER00004'')]) None
       = Inr ([(722, SeriesStr ''SER00004'')] @ (722, SeriesStr ''SER00004'') # [])
   \<and> validate_patients upload_dir empty_db (by_internal_id None)
         ([(722, SeriesStr ''SER00004'')] @ (722, SeriesStr ''SER00004'') # []) = None
   \<and> insert_patients upload_dir 5 (by_internal_id None) empty_db
         [(722, SeriesStr ''SER00004'')] [] = (Inr [2], uploaded_db)
   \<and> get_patient_collection uploaded_db 722 (SeriesStr ''SER00004'')
       = Inr (patient_coll uploaded_db)
   \<and> upload_patients upload_dir 5 empty_db
         (Some [(722, SeriesStr ''SER00004''), (722, SeriesStr ''SER00004'')]) None
       = (Inl already_present, uploaded_db)"
proof -
  let ?old = "(850, SeriesStr ''SER00002'')"
  let ?new = "(722, SeriesStr ''SER00004'')"
  have p1: "patients_of_call upload_dir (Some [?old]) None = Inr [?old]"
    by (simp add: patients_of_call_def)
  have g1: "get_patient_collection ward_db 850 (SeriesStr ''SER00002'') = Inr [pat_850]"
    by (simp add: lookup_code demographics_examples)
  have p2: "patients_of_call upload_dir (Some [?new, ?new]) None = Inr ([?new] @ ?new # [])"
    by (simp add: patients_of_call_def)
  have v2: "validate_patients upload_dir empty_db (by_internal_id None) ([?new] @ ?new # [])
            = None"
    by (simp add: lookup_code upload_code upload_examples)
  have i2: "insert_patients upload_dir 5 (by_internal_id None) empty_db [?new] []
            = (Inr [2], uploaded_db)"
    by (simp add: lookup_code upload_code upload_examples)
  have g2: "get_patient_collection uploaded_db 722 (SeriesStr ''SER00004'')
            = Inr (patient_coll uploaded_db)"
    by (simp add: lookup_code upload_examples)
  have ne: "patient_coll uploaded_db \<noteq> []"
    by (simp add: uploaded_db_def)
  from duplicate_upload_is_rejected [OF p1, where h = 850 and s = "SeriesStr ''SER00002''"
      and db = ward_db and now = 5] g1
  obtain e where e: "upload_patients upload_dir 5 ward_db (Some [?old]) None = (Inl e, ward_db)"
    by auto
  have "upload_patients upload_dir 5 ward_db (Some [?old]) None
          = (Inl (present_at_start ?old), ward_db)"
    using e g1 by (simp add: upload_patients_def p1 by_internal_id_def split: option.splits)
  moreover
  from duplicate_upload_is_rejected [OF p2, where pre = "[?new]" and h = 722
      and s = "SeriesStr ''SER00004''" and post = "[]" and db = empty_db and now = 5
      and ids = "[2]" and ?db1.0 = uploaded_db] v2 i2 g2 ne
  have "upload_patients upload_dir 5 empty_db (Some [?new, ?new]) None
          = (Inl already_present, uploaded_db)"
    by (cases "patient_coll uploaded_db") simp_all
  ultimately show ?thesis
    using p1 g1 p2 v2 i2 g2 by simp
qed

text \<open>
  The claim as stated, no document inserted by a call that raises, fails on the list that
  names the new human 722 twice: the call raises \<^verbatim>\<open>SystemExit\<close>, and the database it
  leaves holds the model document and the patient document of the first entry.
\<close>

theorem duplicate_upload_counterexample:
  "upload_patients upload_dir 5 empty_db
     (Some [(722, SeriesStr ''SER00004''), (722, SeriesStr ''SER00004'')]) None
     = (Inl (SystemExit None ''Patient already present in the database.''), uploaded_db)
   \<and> patient_coll empty_db = [] \<and> models_coll empty_db = []
   \<and> length (patient_coll uploaded_db) = 1 \<and> length (models_coll uploaded_db) = 1"
  by (simp add: lookup_code upload_code upload_examples)

end
